theory Spec2Isabelle
  imports Main
begin

section \<open>Python values, dictionaries and exceptions\<close>

text \<open>
  The user database of the dashboard is replicated between two nodes by
  \<^verbatim>\<open>receive_users_for_sync\<close> and \<^verbatim>\<open>get_users_for_sync\<close> in
  \<^verbatim>\<open>dashboard_server_cloud.py\<close>; the table itself and its local writers
  (\<^verbatim>\<open>register_user\<close>, \<^verbatim>\<open>login\<close>, \<^verbatim>\<open>update_user\<close>) live in \<^verbatim>\<open>auth_db.py\<close>.

  Every \<^verbatim>\<open>raise\<close> of the Python code is a value \<open>Inl e\<close> of the model.
\<close>

datatype error =
    KeyError | ValueError | TypeError | AttributeError
  | OverflowError | IntegrityError | OperationalError

text \<open>
  A key of a decoded JSON object is absent, present with \<^verbatim>\<open>null\<close>, or present
  with a value. \<^verbatim>\<open>d[k]\<close> raises on an absent key, \<^verbatim>\<open>d.get(k)\<close> gives \<^verbatim>\<open>None\<close>.
\<close>

datatype 'a jfield = Missing | Null | Val 'a

fun subscript :: "'a jfield \<Rightarrow> error + 'a option" where
  "subscript Missing = Inl KeyError"
| "subscript Null = Inr None"
| "subscript (Val v) = Inr (Some v)"

fun dict_get :: "'a jfield \<Rightarrow> 'a option" where
  "dict_get Missing = None"
| "dict_get Null = None"
| "dict_get (Val v) = Some v"

text \<open>Truth value of \<^verbatim>\<open>None\<close> or a \<^verbatim>\<open>str\<close>: only a non-empty string is true.\<close>

fun truthy :: "string option \<Rightarrow> bool" where
  "truthy None = False"
| "truthy (Some s) = (s \<noteq> [])"

text \<open>Sequencing: an exception of the first step skips the rest.\<close>

definition and_then :: "error + 'a \<Rightarrow> ('a \<Rightarrow> error + 'b) \<Rightarrow> error + 'b" where
  "and_then m f = (case m of Inl e \<Rightarrow> Inl e | Inr v \<Rightarrow> f v)"

section \<open>The user record and the users table\<close>

text \<open>
  One element of the \<^verbatim>\<open>users\<close> array of a POST body. The merge key \<^verbatim>\<open>id\<close> is
  absent, \<^verbatim>\<open>null\<close> or an integer; the other columns are absent, \<^verbatim>\<open>null\<close> or
  text. JSON values of other types are outside this model.
\<close>

record user =
  uid :: "int jfield"
  username :: "string jfield"
  password_hash :: "string jfield"
  nome :: "string jfield"
  cognome :: "string jfield"
  ruolo :: "string jfield"
  created_at :: "string jfield"
  last_login :: "string jfield"
  updated_at :: "string jfield"

text \<open>
  The values of the eight columns as Python binds them to a statement:
  \<^verbatim>\<open>None\<close> or a \<^verbatim>\<open>str\<close>.
\<close>

record user_values =
  val_username :: "string option"
  val_password_hash :: "string option"
  val_nome :: "string option"
  val_cognome :: "string option"
  val_ruolo :: "string option"
  val_created_at :: "string option"
  val_last_login :: "string option"
  val_updated_at :: "string option"

text \<open>
  What SQLite holds in a column. \<^verbatim>\<open>created_at\<close> and \<^verbatim>\<open>last_login\<close> are declared
  \<^verbatim>\<open>TIMESTAMP\<close>, which gives them \<^verbatim>\<open>NUMERIC\<close> affinity: a text that reads as a
  number is stored as an \<^verbatim>\<open>INTEGER\<close> or a \<^verbatim>\<open>REAL\<close>, any other text as it is.
  The arithmetic of \<^verbatim>\<open>REAL\<close> values is not modelled; they are the elements of a
  type of their own.
\<close>

typedecl sqlite_real

datatype sqlval = SNull | SInt int | SReal sqlite_real | SText string

text \<open>
  The conversion that \<^verbatim>\<open>NUMERIC\<close> affinity applies to a text is SQLite's. The
  model takes it as a parameter \<open>numeric\<close>, so the general theorems hold for
  whatever SQLite does; \<open>numeric_affinity\<close> further down is used on the sample
  data.
\<close>

type_synonym affinity = "string \<Rightarrow> sqlval"

definition timestamp_column :: "affinity \<Rightarrow> string option \<Rightarrow> sqlval" where
  "timestamp_column numeric v = (case v of None \<Rightarrow> SNull | Some s \<Rightarrow> numeric s)"

text \<open>
  A row of the table \<^verbatim>\<open>users\<close> as \<^verbatim>\<open>init_database\<close> creates it, with the
  column \<^verbatim>\<open>updated_at\<close> that the code reads and writes. The migration that adds
  \<^verbatim>\<open>updated_at\<close> is not among the sources: the column is taken to exist, to
  allow \<^verbatim>\<open>NULL\<close> and to keep a text as it is bound, like the \<^verbatim>\<open>TEXT\<close> columns.
\<close>

record user_row =
  row_id :: int
  row_username :: "string option"
  row_password_hash :: "string option"
  row_nome :: "string option"
  row_cognome :: "string option"
  row_ruolo :: "string option"
  row_created_at :: sqlval
  row_last_login :: sqlval
  row_updated_at :: "string option"

text \<open>The row that SQLite stores under rowid \<open>i\<close> for the bound values.\<close>

definition stored_row :: "affinity \<Rightarrow> int \<Rightarrow> user_values \<Rightarrow> user_row" where
  "stored_row numeric i v =
     \<lparr>row_id = i, row_username = val_username v, row_password_hash = val_password_hash v,
      row_nome = val_nome v, row_cognome = val_cognome v, row_ruolo = val_ruolo v,
      row_created_at = timestamp_column numeric (val_created_at v),
      row_last_login = timestamp_column numeric (val_last_login v),
      row_updated_at = val_updated_at v\<rparr>"

text \<open>The three columns an \<^verbatim>\<open>INSERT INTO sessions\<close> of \<^verbatim>\<open>login\<close> writes.\<close>

record session_row =
  sess_user_id :: int
  sess_token :: string
  sess_expires_at :: string

text \<open>
  The committed content of \<^verbatim>\<open>users.db\<close>: both tables, and the counter that
  \<^verbatim>\<open>AUTOINCREMENT\<close> keeps for \<^verbatim>\<open>users\<close>. The list \<open>users\<close> holds the rows in
  the order of their insertion.
\<close>

record database =
  users :: "user_row list"
  users_seq :: int
  sessions :: "session_row list"

text \<open>An \<^verbatim>\<open>INTEGER\<close> that sqlite3 can bind: a signed 64-bit value.\<close>

definition sqlite_int :: "int \<Rightarrow> bool" where
  "sqlite_int i \<longleftrightarrow> - (2 ^ 63) \<le> i \<and> i < 2 ^ 63"

text \<open>\<^verbatim>\<open>SELECT ... FROM users WHERE id = ?\<close> followed by \<^verbatim>\<open>fetchone()\<close>.\<close>

definition select_user_by_id :: "int \<Rightarrow> database \<Rightarrow> user_row option" where
  "select_user_by_id i db = find (\<lambda>r. row_id r = i) (users db)"

text \<open>
  The constraints of \<^verbatim>\<open>CREATE TABLE users\<close>. Those a row meets or fails by
  itself: \<^verbatim>\<open>NOT NULL\<close> on \<^verbatim>\<open>username\<close>, \<^verbatim>\<open>password_hash\<close>, \<^verbatim>\<open>nome\<close>,
  \<^verbatim>\<open>cognome\<close> and \<^verbatim>\<open>ruolo\<close>, and the \<^verbatim>\<open>CHECK\<close> on \<^verbatim>\<open>ruolo\<close>.
\<close>

definition valid_ruolo :: "string \<Rightarrow> bool" where
  "valid_ruolo r \<longleftrightarrow> r = ''paziente'' \<or> r = ''medico'' \<or> r = ''admin''"

definition row_acceptable :: "user_row \<Rightarrow> bool" where
  "row_acceptable r \<longleftrightarrow>
     row_username r \<noteq> None \<and> row_password_hash r \<noteq> None \<and>
     row_nome r \<noteq> None \<and> row_cognome r \<noteq> None \<and>
     (case row_ruolo r of None \<Rightarrow> False | Some x \<Rightarrow> valid_ruolo x)"

text \<open>
  With the rows it is compared with: \<^verbatim>\<open>UNIQUE\<close> on \<^verbatim>\<open>username\<close> and
  \<^verbatim>\<open>PRIMARY KEY\<close> on \<^verbatim>\<open>id\<close>.
\<close>

definition constraints_ok :: "user_row \<Rightarrow> user_row list \<Rightarrow> bool" where
  "constraints_ok r others \<longleftrightarrow>
     row_acceptable r \<and>
     row_username r \<notin> set (map row_username others) \<and>
     row_id r \<notin> set (map row_id others)"

text \<open>
  \<^verbatim>\<open>UPDATE users SET <all columns> WHERE id = ?\<close>: the rows with that id are
  replaced; a violated constraint raises and changes nothing.
\<close>

definition update_user_row :: "affinity \<Rightarrow> int \<Rightarrow> user_values \<Rightarrow> database \<Rightarrow> error + database" where
  "update_user_row numeric i v db =
     (if i \<notin> set (map row_id (users db)) then Inr db
      else if constraints_ok (stored_row numeric i v) (filter (\<lambda>x. row_id x \<noteq> i) (users db))
      then Inr (db\<lparr>users := map (\<lambda>x. if row_id x = i then stored_row numeric i v else x)
                                (users db)\<rparr>)
      else Inl IntegrityError)"

text \<open>The id that \<^verbatim>\<open>AUTOINCREMENT\<close> gives to a row inserted without one.\<close>

definition next_rowid :: "database \<Rightarrow> int" where
  "next_rowid db = fold max (map row_id (users db)) (users_seq db) + 1"

text \<open>
  \<^verbatim>\<open>INSERT INTO users\<close>. With an id the row goes under it; with \<^verbatim>\<open>NULL\<close> or
  without the column SQLite picks the next rowid, and raises when there is none
  left. \<^verbatim>\<open>AUTOINCREMENT\<close> remembers the largest id ever stored.
\<close>

definition insert_at :: "affinity \<Rightarrow> int \<Rightarrow> user_values \<Rightarrow> database \<Rightarrow> error + database" where
  "insert_at numeric i v db =
     (if constraints_ok (stored_row numeric i v) (users db)
      then Inr (db\<lparr>users := users db @ [stored_row numeric i v],
                   users_seq := max (users_seq db) i\<rparr>)
      else Inl IntegrityError)"

definition insert_user_row ::
  "affinity \<Rightarrow> int option \<Rightarrow> user_values \<Rightarrow> database \<Rightarrow> error + database" where
  "insert_user_row numeric key v db =
     (case key of
        Some k \<Rightarrow> if \<not> sqlite_int k then Inl OverflowError else insert_at numeric k v db
      | None \<Rightarrow>
          if \<not> sqlite_int (next_rowid db) then Inl OperationalError
          else insert_at numeric (next_rowid db) v db)"

section \<open>Timestamps\<close>

text \<open>
  A \<^verbatim>\<open>datetime\<close> is naive or aware. Both are counted in microseconds, an aware
  one after its UTC offset has been subtracted. Subtracting or ordering a naive
  and an aware value raises \<^verbatim>\<open>TypeError\<close>.
\<close>

datatype datetime = Naive int | Aware int

fun dt_sub :: "datetime \<Rightarrow> datetime \<Rightarrow> error + int" where
  "dt_sub (Naive a) (Naive b) = Inr (a - b)"
| "dt_sub (Aware a) (Aware b) = Inr (a - b)"
| "dt_sub _ _ = Inl TypeError"

fun dt_gt :: "datetime \<Rightarrow> datetime \<Rightarrow> error + bool" where
  "dt_gt (Naive a) (Naive b) = Inr (a > b)"
| "dt_gt (Aware a) (Aware b) = Inr (a > b)"
| "dt_gt _ _ = Inl TypeError"

text \<open>\<^verbatim>\<open>s.replace('Z', '+00:00')\<close>\<close>

definition replace_Z :: "string \<Rightarrow> string" where
  "replace_Z s = concat (map (\<lambda>c. if c = CHR ''Z'' then ''+00:00'' else [c]) s)"

text \<open>
  \<^verbatim>\<open>datetime.fromisoformat\<close> is library code. The merge takes it as a parameter
  \<open>fromiso\<close> (\<open>None\<close>: it raised \<^verbatim>\<open>ValueError\<close>), so the general theorems hold for
  whatever the installed Python accepts. For concrete runs, \<open>fromisoformat\<close>
  below reads the layouts \<^verbatim>\<open>YYYY-MM-DD\<close> and
  \<^verbatim>\<open>YYYY-MM-DD?HH:MM:SS[.fff[fff]][+HH:MM]\<close> (any separator character, sign
  \<^verbatim>\<open>+\<close> or \<^verbatim>\<open>-\<close>) and rejects every other string. Python reads more (a
  time without seconds, an offset with seconds); \<open>fromisoformat\<close> is applied
  below only to strings on which the two agree.
\<close>

type_synonym parser = "string \<Rightarrow> datetime option"

text \<open>The place of a character in a string, counted from \<open>n\<close>.\<close>

fun index_from :: "int \<Rightarrow> char \<Rightarrow> string \<Rightarrow> int option" where
  "index_from n c [] = None"
| "index_from n c (d # ds) = (if c = d then Some n else index_from (n + 1) c ds)"

definition digit :: "char \<Rightarrow> int option" where
  "digit c = index_from 0 c ''0123456789''"

fun number_from :: "int \<Rightarrow> string \<Rightarrow> int option" where
  "number_from n [] = Some n"
| "number_from n (c # cs) =
     (case digit c of None \<Rightarrow> None | Some d \<Rightarrow> number_from (10 * n + d) cs)"

text \<open>A field of exactly \<open>k\<close> decimal digits.\<close>

definition number :: "nat \<Rightarrow> string \<Rightarrow> int option" where
  "number k s = (if length s = k then number_from 0 s else None)"

definition is_leap :: "int \<Rightarrow> bool" where
  "is_leap y \<longleftrightarrow> y mod 4 = 0 \<and> (y mod 100 \<noteq> 0 \<or> y mod 400 = 0)"

definition days_in_month :: "int \<Rightarrow> int \<Rightarrow> int" where
  "days_in_month y m =
     (if m = 2 then (if is_leap y then 29 else 28)
      else if m = 4 \<or> m = 6 \<or> m = 9 \<or> m = 11 then 30 else 31)"

definition days_before_year :: "int \<Rightarrow> int" where
  "days_before_year y = (y - 1) * 365 + (y - 1) div 4 - (y - 1) div 100 + (y - 1) div 400"

definition days_before_month :: "int \<Rightarrow> int \<Rightarrow> int" where
  "days_before_month y m =
     (if m = 1 then 0 else if m = 2 then 31 else if m = 3 then 59 else if m = 4 then 90
      else if m = 5 then 120 else if m = 6 then 151 else if m = 7 then 181
      else if m = 8 then 212 else if m = 9 then 243 else if m = 10 then 273
      else if m = 11 then 304 else 334)
     + (if 2 < m \<and> is_leap y then 1 else 0)"

text \<open>The proleptic Gregorian ordinal of a date, 0001-01-01 being day 1.\<close>

definition ordinal :: "int \<Rightarrow> int \<Rightarrow> int \<Rightarrow> int" where
  "ordinal y m d = days_before_year y + days_before_month y m + d"

definition parse_date :: "string \<Rightarrow> int option" where
  "parse_date s =
     (if take 1 (drop 4 s) = ''-'' \<and> take 1 (drop 7 s) = ''-'' then
        (case (number 4 (take 4 s), number 2 (take 2 (drop 5 s)), number 2 (drop 8 s)) of
           (Some y, Some m, Some d) \<Rightarrow>
             if 1 \<le> y \<and> 1 \<le> m \<and> m \<le> 12 \<and> 1 \<le> d \<and> d \<le> days_in_month y m
             then Some (ordinal y m d) else None
         | _ \<Rightarrow> None)
      else None)"

text \<open>\<^verbatim>\<open>HH:MM\<close> as minutes, both parts in range.\<close>

definition parse_hh_mm :: "string \<Rightarrow> int option" where
  "parse_hh_mm s =
     (if take 1 (drop 2 s) = '':'' then
        (case (number 2 (take 2 s), number 2 (drop 3 s)) of
           (Some h, Some m) \<Rightarrow> if h < 24 \<and> m < 60 then Some (h * 60 + m) else None
         | _ \<Rightarrow> None)
      else None)"

text \<open>The fraction of a second, three or six digits after the point, in microseconds.\<close>

definition parse_fraction :: "string \<Rightarrow> int option" where
  "parse_fraction s =
     (if s = [] then Some 0
      else if take 1 s = ''.'' then
        (case number 3 (drop 1 s) of
           Some ms \<Rightarrow> Some (ms * 1000)
         | None \<Rightarrow> number 6 (drop 1 s))
      else None)"

text \<open>\<^verbatim>\<open>HH:MM:SS[.fff[fff]]\<close> as microseconds since midnight.\<close>

definition parse_time :: "string \<Rightarrow> int option" where
  "parse_time s =
     (if take 1 (drop 5 s) = '':'' then
        (case (parse_hh_mm (take 5 s), number 2 (take 2 (drop 6 s)), parse_fraction (drop 8 s)) of
           (Some hm, Some sec, Some us) \<Rightarrow>
             if sec < 60 then Some ((hm * 60 + sec) * 1000000 + us) else None
         | _ \<Rightarrow> None)
      else None)"

definition is_sign :: "char \<Rightarrow> bool" where
  "is_sign c \<longleftrightarrow> c = CHR ''+'' \<or> c = CHR ''-''"

definition fromisoformat :: parser where
  "fromisoformat s =
     (case parse_date (take 10 s) of
        None \<Rightarrow> None
      | Some days \<Rightarrow>
          if drop 10 s = [] then Some (Naive (days * 86400000000))
          else
            let tstr = drop 11 s;
                clock = takeWhile (\<lambda>c. \<not> is_sign c) tstr;
                tz = dropWhile (\<lambda>c. \<not> is_sign c) tstr
            in (case parse_time clock of
                  None \<Rightarrow> None
                | Some us \<Rightarrow>
                    let local = days * 86400000000 + us in
                    if tz = [] then Some (Naive local)
                    else (case parse_hh_mm (drop 1 tz) of
                            None \<Rightarrow> None
                          | Some off \<Rightarrow>
                              if take 1 tz = ''+'' then Some (Aware (local - off * 60000000))
                              else Some (Aware (local + off * 60000000)))))"

section \<open>POST /api/users/sync\<close>

text \<open>An entry of the \<^verbatim>\<open>conflicts\<close> list; only \<^verbatim>\<open>local_newer\<close> carries the two timestamps.\<close>

record conflict =
  conf_id :: int
  conf_username :: "string option"
  conf_reason :: string
  conf_ts :: "(string \<times> string) option"

text \<open>The counters of one request.\<close>

record sync_acc =
  updated :: nat
  inserted :: nat
  conflicts :: "conflict list"

text \<open>The open transaction of one request: the uncommitted database and the counters.\<close>

type_synonym txn = "database \<times> sync_acc"

definition add_conflict :: "conflict \<Rightarrow> txn \<Rightarrow> txn" where
  "add_conflict c st = (fst st, (snd st)\<lparr>conflicts := conflicts (snd st) @ [c]\<rparr>)"

text \<open>
  The dictionary \<^verbatim>\<open>{'id': user['id'], 'username': user['username'], 'reason': ...}\<close>.
  It is built only under \<^verbatim>\<open>if existing\<close>, where \<^verbatim>\<open>user['id']\<close> is the integer
  \<open>i\<close> the \<^verbatim>\<open>SELECT\<close> was given; subscripting \<^verbatim>\<open>username\<close> raises \<^verbatim>\<open>KeyError\<close>
  when the key is absent.
\<close>

definition conflict_entry ::
  "int \<Rightarrow> user \<Rightarrow> string \<Rightarrow> (string \<times> string) option \<Rightarrow> error + conflict" where
  "conflict_entry i u reason ts =
     and_then (subscript (username u)) (\<lambda>n.
       Inr \<lparr>conf_id = i, conf_username = n, conf_reason = reason, conf_ts = ts\<rparr>)"

definition report ::
  "int \<Rightarrow> user \<Rightarrow> string \<Rightarrow> (string \<times> string) option \<Rightarrow> txn \<Rightarrow> error + txn" where
  "report i u reason ts st =
     and_then (conflict_entry i u reason ts) (\<lambda>c. Inr (add_conflict c st))"

text \<open>
  The parameter tuple of the \<^verbatim>\<open>UPDATE\<close>: \<^verbatim>\<open>username\<close>, \<^verbatim>\<open>password_hash\<close>,
  \<^verbatim>\<open>nome\<close>, \<^verbatim>\<open>cognome\<close>, \<^verbatim>\<open>ruolo\<close>, \<^verbatim>\<open>updated_at\<close> and \<^verbatim>\<open>id\<close> are subscripted,
  \<^verbatim>\<open>created_at\<close> and \<^verbatim>\<open>last_login\<close> are read with \<^verbatim>\<open>get\<close>. The last element,
  \<^verbatim>\<open>user['id']\<close>, is the id of the \<^verbatim>\<open>WHERE\<close> clause.
\<close>

definition update_params :: "user \<Rightarrow> error + user_values" where
  "update_params u =
     and_then (subscript (username u)) (\<lambda>un.
     and_then (subscript (password_hash u)) (\<lambda>ph.
     and_then (subscript (nome u)) (\<lambda>no.
     and_then (subscript (cognome u)) (\<lambda>co.
     and_then (subscript (ruolo u)) (\<lambda>ru.
     and_then (subscript (updated_at u)) (\<lambda>ua.
     and_then (subscript (uid u)) (\<lambda>key.
       Inr \<lparr>val_username = un, val_password_hash = ph, val_nome = no, val_cognome = co,
            val_ruolo = ru, val_created_at = dict_get (created_at u),
            val_last_login = dict_get (last_login u), val_updated_at = ua\<rparr>)))))))"

text \<open>
  The parameter tuple of the \<^verbatim>\<open>INSERT\<close>, after \<^verbatim>\<open>user['id']\<close>: here
  \<^verbatim>\<open>updated_at\<close> is read with \<^verbatim>\<open>get\<close> too.
\<close>

definition insert_params :: "user \<Rightarrow> error + user_values" where
  "insert_params u =
     and_then (subscript (uid u)) (\<lambda>key.
     and_then (subscript (username u)) (\<lambda>un.
     and_then (subscript (password_hash u)) (\<lambda>ph.
     and_then (subscript (nome u)) (\<lambda>no.
     and_then (subscript (cognome u)) (\<lambda>co.
     and_then (subscript (ruolo u)) (\<lambda>ru.
       Inr \<lparr>val_username = un, val_password_hash = ph, val_nome = no, val_cognome = co,
            val_ruolo = ru, val_created_at = dict_get (created_at u),
            val_last_login = dict_get (last_login u),
            val_updated_at = dict_get (updated_at u)\<rparr>))))))"

text \<open>The \<^verbatim>\<open>UPDATE\<close> branch: write the incoming record over the row, then count it.\<close>

definition apply_update :: "affinity \<Rightarrow> int \<Rightarrow> user \<Rightarrow> txn \<Rightarrow> error + txn" where
  "apply_update numeric i u st =
     and_then (update_params u) (\<lambda>v.
     and_then (update_user_row numeric i v (fst st)) (\<lambda>db'.
       Inr (db', (snd st)\<lparr>updated := updated (snd st) + 1\<rparr>)))"

text \<open>\<^verbatim>\<open>datetime.fromisoformat(s.replace('Z', '+00:00'))\<close>\<close>

definition parse_ts :: "parser \<Rightarrow> string \<Rightarrow> error + datetime" where
  "parse_ts fromiso s =
     (case fromiso (replace_Z s) of None \<Rightarrow> Inl ValueError | Some t \<Rightarrow> Inr t)"

text \<open>
  The body of the inner \<^verbatim>\<open>try\<close>, for the record \<open>u\<close> whose id \<open>i\<close> the table
  holds in the row \<open>existing\<close>. \<^verbatim>\<open>total_seconds()\<close> of a difference of \<open>d\<close>
  microseconds is \<open>d / 10\<^sup>6\<close> correctly rounded, which is below 1 exactly when
  \<open>\<bar>d\<bar> < 10\<^sup>6\<close>.
\<close>

definition compare_timestamps ::
  "affinity \<Rightarrow> parser \<Rightarrow> int \<Rightarrow> user \<Rightarrow> user_row \<Rightarrow> txn \<Rightarrow> error + txn" where
  "compare_timestamps numeric fromiso i u existing st =
     (case (dict_get (updated_at u), row_updated_at existing) of
        (Some incoming_updated, Some existing_updated_at) \<Rightarrow>
          if incoming_updated = [] \<or> existing_updated_at = []
          then report i u ''missing_timestamp'' None st
          else
            and_then (parse_ts fromiso incoming_updated) (\<lambda>incoming_ts.
            and_then (parse_ts fromiso existing_updated_at) (\<lambda>existing_ts.
            and_then (dt_sub incoming_ts existing_ts) (\<lambda>d.
              if \<bar>d\<bar> < 1000000 then Inr st
              else
                and_then (dt_gt incoming_ts existing_ts) (\<lambda>newer.
                  if newer then apply_update numeric i u st
                  else report i u ''local_newer''
                         (Some (existing_updated_at, incoming_updated)) st))))
      | _ \<Rightarrow> report i u ''missing_timestamp'' None st)"

text \<open>
  The \<^verbatim>\<open>INSERT\<close> branch, \<open>key\<close> being \<^verbatim>\<open>user['id']\<close>; nothing catches what it
  raises.
\<close>

definition apply_insert :: "affinity \<Rightarrow> int option \<Rightarrow> user \<Rightarrow> txn \<Rightarrow> error + txn" where
  "apply_insert numeric key u st =
     and_then (insert_params u) (\<lambda>v.
     and_then (insert_user_row numeric key v (fst st)) (\<lambda>db'.
       Inr (db', (snd st)\<lparr>inserted := inserted (snd st) + 1\<rparr>)))"

text \<open>
  One turn of the \<^verbatim>\<open>for user in users\<close> loop. \<^verbatim>\<open>WHERE id = NULL\<close> selects no
  row, so a \<^verbatim>\<open>null\<close> id goes to the \<^verbatim>\<open>INSERT\<close>. Whatever the inner \<^verbatim>\<open>try\<close>
  raises is reported as \<^verbatim>\<open>timestamp_parse_error\<close>; building that report can
  raise again.
\<close>

definition process_user :: "affinity \<Rightarrow> parser \<Rightarrow> user \<Rightarrow> txn \<Rightarrow> error + txn" where
  "process_user numeric fromiso u st =
     and_then (subscript (uid u)) (\<lambda>key.
       case key of
         None \<Rightarrow> apply_insert numeric None u st
       | Some i \<Rightarrow>
           if \<not> sqlite_int i then Inl OverflowError
           else
             (case select_user_by_id i (fst st) of
                Some existing \<Rightarrow>
                  (case compare_timestamps numeric fromiso i u existing st of
                     Inr st' \<Rightarrow> Inr st'
                   | Inl ts_error \<Rightarrow> report i u ''timestamp_parse_error'' None st)
              | None \<Rightarrow> apply_insert numeric (Some i) u st))"

fun merge_users :: "affinity \<Rightarrow> parser \<Rightarrow> user list \<Rightarrow> txn \<Rightarrow> error + txn" where
  "merge_users numeric fromiso [] st = Inr st"
| "merge_users numeric fromiso (u # us) st =
     (case process_user numeric fromiso u st of
        Inl e \<Rightarrow> Inl e
      | Inr st' \<Rightarrow> merge_users numeric fromiso us st')"

text \<open>The HTTP responses of the two sync endpoints (their \<^verbatim>\<open>timestamp\<close> field is left out).\<close>

datatype response =
    Unauthorized
  | Bad_request
  | Server_error error
  | Sync_ok nat nat "conflict list"
  | Users_dump "user_row list"

fun status :: "response \<Rightarrow> nat" where
  "status Unauthorized = 401"
| "status Bad_request = 400"
| "status (Server_error e) = 500"
| "status (Sync_ok u i cs) = 200"
| "status (Users_dump rs) = 200"

text \<open>\<^verbatim>\<open>request.headers.get('X-Sync-Token') == SYNC_TOKEN\<close>\<close>

definition verify_sync_token :: "string \<Rightarrow> string option \<Rightarrow> bool" where
  "verify_sync_token SYNC_TOKEN token \<longleftrightarrow> token = Some SYNC_TOKEN"

definition empty_acc :: sync_acc where
  "empty_acc = \<lparr>updated = 0, inserted = 0, conflicts = []\<rparr>"

text \<open>
  The POST handler. \<open>body\<close> is the key \<^verbatim>\<open>users\<close> of the request's JSON object.
  The transaction is committed once, after the loop; an exception that
  reaches the outer \<^verbatim>\<open>except\<close> leaves it uncommitted, so the database keeps
  its content.
\<close>

definition receive_users_for_sync ::
  "string \<Rightarrow> affinity \<Rightarrow> parser \<Rightarrow> string option \<Rightarrow> user list jfield \<Rightarrow> database \<Rightarrow>
   response \<times> database" where
  "receive_users_for_sync SYNC_TOKEN numeric fromiso token body db =
     (if \<not> verify_sync_token SYNC_TOKEN token then (Unauthorized, db)
      else
        (case dict_get body of
           None \<Rightarrow> (Bad_request, db)
         | Some [] \<Rightarrow> (Bad_request, db)
         | Some us \<Rightarrow>
             (case merge_users numeric fromiso us (db, empty_acc) of
                Inl e \<Rightarrow> (Server_error e, db)
              | Inr st' \<Rightarrow>
                  (Sync_ok (updated (snd st')) (inserted (snd st')) (conflicts (snd st')),
                   fst st'))))"

text \<open>
  The GET handler: the whole table, behind the same token check.
  \<^verbatim>\<open>SELECT * FROM users\<close> returns the rows by rowid.
\<close>

definition get_users_for_sync :: "string \<Rightarrow> string option \<Rightarrow> database \<Rightarrow> response" where
  "get_users_for_sync SYNC_TOKEN token db =
     (if \<not> verify_sync_token SYNC_TOKEN token then Unauthorized
      else Users_dump (sort_key row_id (users db)))"

section \<open>The local writers of the users table\<close>

text \<open>
  \<^verbatim>\<open>auth_db.py\<close> returns \<^verbatim>\<open>{'success': False, 'error': ...}\<close> or
  \<^verbatim>\<open>{'success': True, ...}\<close>; the error texts are named by constructors.
  bcrypt, the session token and the clock are parameters: \<open>now\<close> is the text
  of \<^verbatim>\<open>datetime('now')\<close> and of \<^verbatim>\<open>CURRENT_TIMESTAMP\<close>.
\<close>

datatype failure =
    Invalid_role | Username_exists | Bad_credentials
  | Nothing_to_update | User_not_found | Database_error

datatype 'a outcome = Failure failure | Success 'a

text \<open>\<^verbatim>\<open>SELECT ... FROM users WHERE username = ?\<close> followed by \<^verbatim>\<open>fetchone()\<close>.\<close>

definition select_user_by_username :: "string \<Rightarrow> database \<Rightarrow> user_row option" where
  "select_user_by_username n db = find (\<lambda>r. row_username r = Some n) (users db)"

text \<open>
  \<^verbatim>\<open>register_user\<close>: the \<^verbatim>\<open>INSERT\<close> names no id, \<^verbatim>\<open>created_at\<close> takes its
  default \<^verbatim>\<open>CURRENT_TIMESTAMP\<close> and \<^verbatim>\<open>last_login\<close> stays \<^verbatim>\<open>NULL\<close>. Only
  \<^verbatim>\<open>sqlite3.IntegrityError\<close> is caught.
\<close>

definition register_user ::
  "affinity \<Rightarrow> (string \<Rightarrow> string) \<Rightarrow> string \<Rightarrow> string \<Rightarrow> string \<Rightarrow> string \<Rightarrow> string \<Rightarrow> string \<Rightarrow>
   database \<Rightarrow> error + (int outcome \<times> database)" where
  "register_user numeric hash_password now new_username password new_nome new_cognome new_ruolo db =
     (if \<not> valid_ruolo new_ruolo then Inr (Failure Invalid_role, db)
      else
        (case select_user_by_username new_username db of
           Some existing \<Rightarrow> Inr (Failure Username_exists, db)
         | None \<Rightarrow>
             (case insert_user_row numeric None
                     \<lparr>val_username = Some new_username,
                      val_password_hash = Some (hash_password password),
                      val_nome = Some new_nome, val_cognome = Some new_cognome,
                      val_ruolo = Some new_ruolo, val_created_at = Some now,
                      val_last_login = None, val_updated_at = Some now\<rparr> db of
                Inl e \<Rightarrow> if e = IntegrityError then Inr (Failure Database_error, db) else Inl e
              | Inr db' \<Rightarrow> Inr (Success (next_rowid db), db'))))"

text \<open>
  \<^verbatim>\<open>login\<close> has no \<^verbatim>\<open>except\<close>: what bcrypt or the \<^verbatim>\<open>INSERT INTO sessions\<close>
  raises leaves the function, before the commit.
\<close>

definition login ::
  "affinity \<Rightarrow> (string \<Rightarrow> string \<Rightarrow> error + bool) \<Rightarrow> string \<Rightarrow> string \<Rightarrow> string \<Rightarrow> string \<Rightarrow>
   string \<Rightarrow> database \<Rightarrow> error + ((string \<times> user_row) outcome \<times> database)" where
  "login numeric verify_password session_token expires_at now login_name password db =
     (case select_user_by_username login_name db of
        None \<Rightarrow> Inr (Failure Bad_credentials, db)
      | Some user \<Rightarrow>
          (case row_password_hash user of
             None \<Rightarrow> Inl AttributeError
           | Some h \<Rightarrow>
               and_then (verify_password password h) (\<lambda>ok.
                 if \<not> ok then Inr (Failure Bad_credentials, db)
                 else if session_token \<in> set (map sess_token (sessions db))
                 then Inl IntegrityError
                 else
                   Inr (Success (session_token, user),
                        db\<lparr>sessions := sessions db @
                               [\<lparr>sess_user_id = row_id user, sess_token = session_token,
                                 sess_expires_at = expires_at\<rparr>],
                           users := map (\<lambda>r. if row_id r = row_id user
                                              then r\<lparr>row_last_login := numeric now\<rparr> else r)
                                        (users db)\<rparr>))))"

text \<open>\<^verbatim>\<open>if value: updates.append("column = ?")\<close>: a true value replaces the column.\<close>

definition assign :: "string option \<Rightarrow> string option \<Rightarrow> string option" where
  "assign new old = (if truthy new then new else old)"

text \<open>
  The \<^verbatim>\<open>SET\<close> list that \<^verbatim>\<open>update_user\<close> builds, applied to a row: the columns
  given with a true value, and always \<^verbatim>\<open>updated_at = datetime('now')\<close>.
\<close>

definition set_columns ::
  "(string \<Rightarrow> string) \<Rightarrow> string \<Rightarrow> string option \<Rightarrow> string option \<Rightarrow> string option \<Rightarrow>
   string option \<Rightarrow> user_row \<Rightarrow> user_row" where
  "set_columns hash_password now new_nome new_cognome new_ruolo new_password r =
     r\<lparr>row_nome := assign new_nome (row_nome r),
       row_cognome := assign new_cognome (row_cognome r),
       row_ruolo := assign new_ruolo (row_ruolo r),
       row_password_hash :=
         assign (map_option hash_password (if truthy new_password then new_password else None))
                (row_password_hash r),
       row_updated_at := Some now\<rparr>"

text \<open>
  \<^verbatim>\<open>update_user\<close>: an invalid role and an empty \<^verbatim>\<open>SET\<close> list return before any
  statement; \<^verbatim>\<open>rowcount == 0\<close> is looked at after the commit.
\<close>

definition update_user ::
  "(string \<Rightarrow> string) \<Rightarrow> string \<Rightarrow> int \<Rightarrow> string option \<Rightarrow> string option \<Rightarrow> string option \<Rightarrow>
   string option \<Rightarrow> database \<Rightarrow> error + (unit outcome \<times> database)" where
  "update_user hash_password now user_id new_nome new_cognome new_ruolo new_password db =
     (if truthy new_ruolo \<and> (case new_ruolo of None \<Rightarrow> False | Some x \<Rightarrow> \<not> valid_ruolo x)
      then Inr (Failure Invalid_role, db)
      else if \<not> (truthy new_nome \<or> truthy new_cognome \<or> truthy new_ruolo \<or> truthy new_password)
      then Inr (Failure Nothing_to_update, db)
      else if \<not> sqlite_int user_id then Inl OverflowError
      else if user_id \<notin> set (map row_id (users db)) then Inr (Failure User_not_found, db)
      else
        Inr (Success (),
             db\<lparr>users :=
                  map (\<lambda>r. if row_id r = user_id
                           then set_columns hash_password now new_nome new_cognome new_ruolo
                                  new_password r
                           else r)
                      (users db)\<rparr>))"

section \<open>Sample data\<close>

text \<open>
  \<^verbatim>\<open>NUMERIC\<close> affinity on the sample data: a text that is a decimal integer
  literal of 64 bits becomes that integer, every other text is kept. SQLite
  converts more (real literals, larger integers, white space around a number);
  such texts do not occur below, and the general theorems do not use this
  function.
\<close>

definition integer_literal :: "string \<Rightarrow> int option" where
  "integer_literal s =
     (case s of
        [] \<Rightarrow> None
      | c # cs \<Rightarrow>
          if c = CHR ''-'' then (if cs = [] then None else map_option uminus (number_from 0 cs))
          else if c = CHR ''+'' then (if cs = [] then None else number_from 0 cs)
          else number_from 0 s)"

definition numeric_affinity :: affinity where
  "numeric_affinity s =
     (case integer_literal s of
        Some i \<Rightarrow> if sqlite_int i then SInt i else SText s
      | None \<Rightarrow> SText s)"

definition alice_row :: user_row where
  "alice_row =
     \<lparr>row_id = 1, row_username = Some ''alice'', row_password_hash = Some ''hash-a'',
      row_nome = Some ''Alice'', row_cognome = Some ''Rossi'', row_ruolo = Some ''paziente'',
      row_created_at = SText ''2024-12-01 09:00:00'', row_last_login = SNull,
      row_updated_at = Some ''2025-01-01T10:00:00''\<rparr>"

definition db_alice :: database where
  "db_alice = \<lparr>users = [alice_row], users_seq = 1, sessions = []\<rparr>"

text \<open>An incoming version of user 1, five minutes newer than \<open>alice_row\<close>.\<close>

definition alice_newer :: user where
  "alice_newer =
     \<lparr>uid = Val 1, username = Val ''alice'', password_hash = Val ''hash-b'',
      nome = Val ''Alice'', cognome = Val ''Bianchi'', ruolo = Val ''medico'',
      created_at = Val ''2024-12-02 09:00:00'', last_login = Null,
      updated_at = Val ''2025-01-01T10:05:00''\<rparr>"

text \<open>A complete record of a user the table does not hold.\<close>

definition bob :: user where
  "bob =
     \<lparr>uid = Val 2, username = Val ''bob'', password_hash = Val ''hash-c'',
      nome = Val ''Bob'', cognome = Val ''Verdi'', ruolo = Val ''medico'',
      created_at = Val ''2024-12-03 09:00:00'', last_login = Null,
      updated_at = Val ''2025-01-01T10:05:00''\<rparr>"

definition bob_row :: user_row where
  "bob_row =
     \<lparr>row_id = 2, row_username = Some ''bob'', row_password_hash = Some ''hash-c'',
      row_nome = Some ''Bob'', row_cognome = Some ''Verdi'', row_ruolo = Some ''medico'',
      row_created_at = SText ''2024-12-03 09:00:00'', row_last_login = SNull,
      row_updated_at = Some ''2025-01-01T10:05:00''\<rparr>"

text \<open>The row of user 1 once \<open>alice_newer\<close> has been written over it.\<close>

definition alice_newer_row :: user_row where
  "alice_newer_row =
     \<lparr>row_id = 1, row_username = Some ''alice'', row_password_hash = Some ''hash-b'',
      row_nome = Some ''Alice'', row_cognome = Some ''Bianchi'', row_ruolo = Some ''medico'',
      row_created_at = SText ''2024-12-02 09:00:00'', row_last_login = SNull,
      row_updated_at = Some ''2025-01-01T10:05:00''\<rparr>"

definition db_two :: database where
  "db_two = \<lparr>users = [alice_row, bob_row], users_seq = 2, sessions = []\<rparr>"

text \<open>
  Two newer versions: user 1 takes the name that user 2 still holds when the
  first record is processed, and user 2 gives it up in the second record.
\<close>

definition rename_batch :: "user list" where
  "rename_batch =
     [alice_newer\<lparr>username := Val ''bob''\<rparr>,
      bob\<lparr>username := Val ''carol'', updated_at := Val ''2025-01-01T10:10:00''\<rparr>]"

text \<open>
  A record with \<^verbatim>\<open>"id": null\<close>, and a newer record for the id that the first
  one is given in \<open>db_alice\<close>.
\<close>

definition null_id_batch :: "user list" where
  "null_id_batch =
     [bob\<lparr>uid := Null, updated_at := Val ''2025-01-01T10:00:00''\<rparr>,
      bob\<lparr>username := Val ''carol''\<rparr>]"

text \<open>The configured shared token of \<^verbatim>\<open>SYNC_CONFIG\<close>.\<close>

definition sync_token :: string where
  "sync_token = ''test123''"

section \<open>Notions used in the proofs\<close>






section \<open>Evaluation rules\<close>

lemmas parser_defs = fromisoformat_def parse_date_def parse_time_def parse_hh_mm_def
  parse_fraction_def number_def digit_def ordinal_def days_before_year_def
  days_before_month_def days_in_month_def is_leap_def is_sign_def replace_Z_def

lemmas merge_defs = receive_users_for_sync_def get_users_for_sync_def verify_sync_token_def
  empty_acc_def process_user_def compare_timestamps_def parse_ts_def apply_update_def
  apply_insert_def update_params_def insert_params_def report_def conflict_entry_def
  add_conflict_def and_then_def sqlite_int_def select_user_by_id_def
  update_user_row_def insert_user_row_def insert_at_def next_rowid_def stored_row_def
  timestamp_column_def constraints_ok_def row_acceptable_def valid_ruolo_def

lemmas sample_defs = alice_row_def db_alice_def alice_newer_def bob_def bob_row_def
  alice_newer_row_def db_two_def rename_batch_def null_id_batch_def sync_token_def
  numeric_affinity_def integer_literal_def digit_def

section \<open>Sequencing, timestamps and table lookups\<close>

lemma and_then_Inr_iff: "and_then m f = Inr y \<longleftrightarrow> (\<exists>v. m = Inr v \<and> f v = Inr y)"
  by (cases m) (simp_all add: and_then_def)

lemma and_then_simps [simp]: "and_then (Inl e) f = Inl e" "and_then (Inr v) f = f v"
  by (simp_all add: and_then_def)


lemma dt_gt_sub: "dt_sub ta tb = Inr d \<Longrightarrow> dt_gt ta tb = Inr (0 < d)"
  by (cases ta; cases tb) auto



lemma find_row_id: "find (\<lambda>x. row_id x = i) rows = Some r \<Longrightarrow> row_id r = i \<and> i \<in> set (map row_id rows)"
  by (induction rows) (auto split: if_splits)

lemma find_row_None: "find (\<lambda>x. row_id x = i) rows = None \<longleftrightarrow> i \<notin> set (map row_id rows)"
  by (induction rows) auto


lemma find_replaced:
  "i \<in> set (map row_id rows) \<Longrightarrow> row_id r = i \<Longrightarrow>
   find (\<lambda>x. row_id x = i) (map (\<lambda>x. if row_id x = i then r else x) rows) = Some r"
  by (induction rows) auto

lemma find_replaced_other:
  "row_id r = i \<Longrightarrow> j \<noteq> i \<Longrightarrow>
   find (\<lambda>x. row_id x = j) (map (\<lambda>x. if row_id x = i then r else x) rows) =
   find (\<lambda>x. row_id x = j) rows"
  by (induction rows) auto

lemma select_mem: "select_user_by_id i db = Some r \<Longrightarrow> i \<in> set (map row_id (users db))"
  unfolding select_user_by_id_def using find_row_id by blast

lemma stored_row_simps [simp]:
  "row_id (stored_row N i v) = i"
  "row_username (stored_row N i v) = val_username v"
  "row_updated_at (stored_row N i v) = val_updated_at v"
  "row_created_at (stored_row N i v) = timestamp_column N (val_created_at v)"
  "row_last_login (stored_row N i v) = timestamp_column N (val_last_login v)"
  by (simp_all add: stored_row_def)

lemma report_Inr_iff:
  "report i u reason ts st = Inr st' \<longleftrightarrow>
   (\<exists>c. conflict_entry i u reason ts = Inr c \<and> st' = add_conflict c st)"
  by (auto simp: report_def and_then_Inr_iff)

lemma update_params_updated_at:
  "update_params u = Inr v \<Longrightarrow> val_updated_at v = dict_get (updated_at u)"
  by (cases "updated_at u") (auto simp: update_params_def and_then_Inr_iff)

lemma update_params_created_at:
  "update_params u = Inr v \<Longrightarrow> val_created_at v = dict_get (created_at u)"
  by (auto simp: update_params_def and_then_Inr_iff)


lemma update_params_no_username: "username u = Missing \<Longrightarrow> update_params u = Inl KeyError"
  by (simp add: update_params_def)

lemma insert_params_updated_at:
  "insert_params u = Inr v \<Longrightarrow> val_updated_at v = dict_get (updated_at u)"
  by (auto simp: insert_params_def and_then_Inr_iff)

lemma compare_timestamps_Inr_cases:
  assumes "compare_timestamps N P i u ex st = Inr st'"
  obtains
    (missing) c where
      "\<not> (truthy (dict_get (updated_at u)) \<and> truthy (row_updated_at ex))"
      "conflict_entry i u ''missing_timestamp'' None = Inr c" "st' = add_conflict c st"
  | (noop) a b ta tb d where
      "dict_get (updated_at u) = Some a" "row_updated_at ex = Some b" "a \<noteq> []" "b \<noteq> []"
      "P (replace_Z a) = Some ta" "P (replace_Z b) = Some tb" "dt_sub ta tb = Inr d"
      "\<bar>d\<bar> < 1000000" "st' = st"
  | (update) a b ta tb d v db' where
      "dict_get (updated_at u) = Some a" "row_updated_at ex = Some b" "a \<noteq> []" "b \<noteq> []"
      "P (replace_Z a) = Some ta" "P (replace_Z b) = Some tb" "dt_sub ta tb = Inr d"
      "1000000 \<le> d" "update_params u = Inr v" "update_user_row N i v (fst st) = Inr db'"
      "st' = (db', (snd st)\<lparr>updated := updated (snd st) + 1\<rparr>)"
  | (older) a b ta tb d c where
      "dict_get (updated_at u) = Some a" "row_updated_at ex = Some b" "a \<noteq> []" "b \<noteq> []"
      "P (replace_Z a) = Some ta" "P (replace_Z b) = Some tb" "dt_sub ta tb = Inr d"
      "d \<le> - 1000000" "conflict_entry i u ''local_newer'' (Some (b, a)) = Inr c"
      "st' = add_conflict c st"
proof (cases "truthy (dict_get (updated_at u)) \<and> truthy (row_updated_at ex)")
  case False
  then have "compare_timestamps N P i u ex st = report i u ''missing_timestamp'' None st"
    by (auto simp: compare_timestamps_def split: option.splits)
  with assms False show ?thesis
    by (auto simp: report_Inr_iff intro: missing)
next
  case True
  then obtain a b where ab: "dict_get (updated_at u) = Some a" "row_updated_at ex = Some b"
      "a \<noteq> []" "b \<noteq> []"
    by (cases "dict_get (updated_at u)"; cases "row_updated_at ex") auto
  with assms obtain ta tb d where t: "P (replace_Z a) = Some ta" "P (replace_Z b) = Some tb"
      "dt_sub ta tb = Inr d"
    by (auto simp: compare_timestamps_def parse_ts_def and_then_Inr_iff split: option.splits)
  have gt: "dt_gt ta tb = Inr (0 < d)" using t(3) by (rule dt_gt_sub)
  show ?thesis
  proof (cases "\<bar>d\<bar> < 1000000")
    case True
    with assms ab t have "st' = st"
      by (simp add: compare_timestamps_def parse_ts_def)
    with ab t True show ?thesis by (rule noop)
  next
    case small: False
    show ?thesis
    proof (cases "0 < d")
      case True
      with assms ab t gt small have "apply_update N i u st = Inr st'"
        by (simp add: compare_timestamps_def parse_ts_def)
      then obtain v db' where "update_params u = Inr v" "update_user_row N i v (fst st) = Inr db'"
          "st' = (db', (snd st)\<lparr>updated := updated (snd st) + 1\<rparr>)"
        by (auto simp: apply_update_def and_then_Inr_iff)
      moreover have "1000000 \<le> d" using small True by arith
      ultimately show ?thesis using ab t by (auto intro: update)
    next
      case False
      with assms ab t gt small
      have "report i u ''local_newer'' (Some (b, a)) st = Inr st'"
        by (simp add: compare_timestamps_def parse_ts_def)
      then obtain c where "conflict_entry i u ''local_newer'' (Some (b, a)) = Inr c"
          "st' = add_conflict c st"
        by (auto simp: report_Inr_iff)
      moreover have "d \<le> - 1000000" using small False by arith
      ultimately show ?thesis using ab t by (auto intro: older)
    qed
  qed
qed

lemma process_user_Inr_cases:
  assumes "process_user N P u st = Inr st'"
  obtains
    (fresh) v db' where
      "uid u = Null" "insert_params u = Inr v" "insert_user_row N None v (fst st) = Inr db'"
      "st' = (db', (snd st)\<lparr>inserted := inserted (snd st) + 1\<rparr>)"
  | (insert) i v db' where
      "uid u = Val i" "sqlite_int i" "select_user_by_id i (fst st) = None"
      "insert_params u = Inr v" "insert_user_row N (Some i) v (fst st) = Inr db'"
      "st' = (db', (snd st)\<lparr>inserted := inserted (snd st) + 1\<rparr>)"
  | (compared) i ex where
      "uid u = Val i" "sqlite_int i" "select_user_by_id i (fst st) = Some ex"
      "compare_timestamps N P i u ex st = Inr st'"
  | (caught) i ex e c where
      "uid u = Val i" "sqlite_int i" "select_user_by_id i (fst st) = Some ex"
      "compare_timestamps N P i u ex st = Inl e"
      "conflict_entry i u ''timestamp_parse_error'' None = Inr c" "st' = add_conflict c st"
proof (cases "uid u")
  case Missing
  with assms show ?thesis by (simp add: process_user_def)
next
  case Null
  with assms have "apply_insert N None u st = Inr st'" by (simp add: process_user_def)
  then obtain v db' where "insert_params u = Inr v" "insert_user_row N None v (fst st) = Inr db'"
      "st' = (db', (snd st)\<lparr>inserted := inserted (snd st) + 1\<rparr>)"
    by (auto simp: apply_insert_def and_then_Inr_iff)
  with Null show ?thesis by (auto intro: fresh)
next
  case (Val i)
  with assms have i: "sqlite_int i"
    by (auto simp: process_user_def split: if_splits)
  show ?thesis
  proof (cases "select_user_by_id i (fst st)")
    case None
    with assms Val i have "apply_insert N (Some i) u st = Inr st'"
      by (simp add: process_user_def)
    then obtain v db' where "insert_params u = Inr v" "insert_user_row N (Some i) v (fst st) = Inr db'"
        "st' = (db', (snd st)\<lparr>inserted := inserted (snd st) + 1\<rparr>)"
      by (auto simp: apply_insert_def and_then_Inr_iff)
    with Val i None show ?thesis by (auto intro: insert)
  next
    case (Some ex)
    show ?thesis
    proof (cases "compare_timestamps N P i u ex st")
      case (Inr s)
      with assms Val i Some have "s = st'" by (simp add: process_user_def)
      with Inr Val i Some show ?thesis by (auto intro: compared)
    next
      case (Inl e)
      with assms Val i Some have "report i u ''timestamp_parse_error'' None st = Inr st'"
        by (simp add: process_user_def)
      then obtain c where "conflict_entry i u ''timestamp_parse_error'' None = Inr c"
          "st' = add_conflict c st"
        by (auto simp: report_Inr_iff)
      with Inl Val i Some show ?thesis by (auto intro: caught)
    qed
  qed
qed

lemma add_conflict_simps [simp]:
  "fst (add_conflict c st) = fst st"
  "updated (snd (add_conflict c st)) = updated (snd st)"
  "inserted (snd (add_conflict c st)) = inserted (snd st)"
  "conflicts (snd (add_conflict c st)) = conflicts (snd st) @ [c]"
  by (simp_all add: add_conflict_def)

lemma add_conflict_pair: "add_conflict c (db, acc) = (db, acc\<lparr>conflicts := conflicts acc @ [c]\<rparr>)"
  by (simp add: add_conflict_def)





lemma select_after_update:
  assumes "update_user_row N i v db = Inr db'" "i \<in> set (map row_id (users db))"
  shows "select_user_by_id i db' = Some (stored_row N i v)"
    and "j \<noteq> i \<Longrightarrow> select_user_by_id j db' = select_user_by_id j db"
  using assms
  by (auto simp: update_user_row_def select_user_by_id_def find_replaced find_replaced_other
           split: if_splits)




section \<open>The turns of the merge loop\<close>

lemma existing_step:
  "uid u = Val i \<Longrightarrow> sqlite_int i \<Longrightarrow> select_user_by_id i (fst st) = Some row \<Longrightarrow>
   process_user N P u st =
     (case compare_timestamps N P i u row st of
        Inr st' \<Rightarrow> Inr st'
      | Inl e \<Rightarrow> report i u ''timestamp_parse_error'' None st)"
  by (simp add: process_user_def)

lemma report_present:
  "username u \<noteq> Missing \<Longrightarrow>
   report i u reason ts st =
     Inr (add_conflict \<lparr>conf_id = i, conf_username = dict_get (username u),
                        conf_reason = reason, conf_ts = ts\<rparr> st)"
  by (cases "username u") (simp_all add: report_def conflict_entry_def)

lemma report_absent: "username u = Missing \<Longrightarrow> report i u reason ts st = Inl KeyError"
  by (simp add: report_def conflict_entry_def)

lemma compare_missing:
  "\<not> (truthy (dict_get (updated_at u)) \<and> truthy (row_updated_at row)) \<Longrightarrow>
   compare_timestamps N P i u row st = report i u ''missing_timestamp'' None st"
  by (cases "dict_get (updated_at u)"; cases "row_updated_at row")
     (auto simp: compare_timestamps_def)

lemma compare_parsed:
  assumes "dict_get (updated_at u) = Some a" "row_updated_at row = Some b" "a \<noteq> []" "b \<noteq> []"
    and "P (replace_Z a) = Some ta" "P (replace_Z b) = Some tb" "dt_sub ta tb = Inr d"
  shows "compare_timestamps N P i u row st =
           (if \<bar>d\<bar> < 1000000 then Inr st
            else if 0 < d then apply_update N i u st
            else report i u ''local_newer'' (Some (b, a)) st)"
  using assms dt_gt_sub[OF assms(7)]
  by (simp add: compare_timestamps_def parse_ts_def)

lemma compare_mixed:
  assumes "dict_get (updated_at u) = Some a" "row_updated_at row = Some b" "a \<noteq> []" "b \<noteq> []"
    and "P (replace_Z a) = Some ta" "P (replace_Z b) = Some tb" "dt_sub ta tb = Inl e"
  shows "compare_timestamps N P i u row st = Inl e"
  using assms by (simp add: compare_timestamps_def parse_ts_def)



lemma apply_update_ok:
  assumes "select_user_by_id i db = Some row" "update_params u = Inr v"
    and "constraints_ok (stored_row N i v) (filter (\<lambda>x. row_id x \<noteq> i) (users db))"
  shows "apply_update N i u (db, acc) =
           Inr (db\<lparr>users := map (\<lambda>x. if row_id x = i then stored_row N i v else x) (users db)\<rparr>,
                acc\<lparr>updated := updated acc + 1\<rparr>)"
  using assms select_mem[OF assms(1)]
  by (simp add: apply_update_def update_user_row_def)

lemma apply_update_refused:
  assumes "select_user_by_id i db = Some row"
    and "update_params u = Inl e \<or>
         (update_params u = Inr v \<and>
          \<not> constraints_ok (stored_row N i v) (filter (\<lambda>x. row_id x \<noteq> i) (users db)))"
  shows "\<exists>e'. apply_update N i u (db, acc) = Inl e'"
  using assms select_mem[OF assms(1)]
  by (auto simp: apply_update_def update_user_row_def)

lemma update_step:
  assumes "uid u = Val i" "sqlite_int i" "select_user_by_id i db = Some row"
    and "dict_get (updated_at u) = Some a" "row_updated_at row = Some b" "a \<noteq> []" "b \<noteq> []"
    and "P (replace_Z a) = Some ta" "P (replace_Z b) = Some tb" "dt_sub ta tb = Inr d"
    and "1000000 \<le> d" "update_params u = Inr v"
    and "constraints_ok (stored_row N i v) (filter (\<lambda>x. row_id x \<noteq> i) (users db))"
  shows "process_user N P u (db, acc) =
           Inr (db\<lparr>users := map (\<lambda>x. if row_id x = i then stored_row N i v else x) (users db)\<rparr>,
                acc\<lparr>updated := updated acc + 1\<rparr>)"
proof -
  have "compare_timestamps N P i u row (db, acc) = apply_update N i u (db, acc)"
    using compare_parsed[OF assms(4-10)] assms(11) by simp
  also have "\<dots> = Inr (db\<lparr>users := map (\<lambda>x. if row_id x = i then stored_row N i v else x) (users db)\<rparr>,
                acc\<lparr>updated := updated acc + 1\<rparr>)"
    by (rule apply_update_ok[OF assms(3,12,13)])
  finally show ?thesis
    using existing_step[of u i "(db, acc)" row N P] assms(1-3) by simp
qed

lemma noop_step:
  assumes "uid u = Val i" "sqlite_int i" "select_user_by_id i db = Some row"
    and "dict_get (updated_at u) = Some a" "row_updated_at row = Some b" "a \<noteq> []" "b \<noteq> []"
    and "P (replace_Z a) = Some ta" "P (replace_Z b) = Some tb" "dt_sub ta tb = Inr d"
    and "\<bar>d\<bar> < 1000000"
  shows "process_user N P u (db, acc) = Inr (db, acc)"
  using existing_step[of u i "(db, acc)" row N P] compare_parsed[OF assms(4-10)] assms(1-3,11)
  by simp

lemma older_step:
  assumes "uid u = Val i" "sqlite_int i" "select_user_by_id i db = Some row"
    and "dict_get (updated_at u) = Some a" "row_updated_at row = Some b" "a \<noteq> []" "b \<noteq> []"
    and "P (replace_Z a) = Some ta" "P (replace_Z b) = Some tb" "dt_sub ta tb = Inr d"
    and "d \<le> - 1000000" "username u \<noteq> Missing"
  shows "process_user N P u (db, acc) =
           Inr (db, acc\<lparr>conflicts := conflicts acc @
                  [\<lparr>conf_id = i, conf_username = dict_get (username u),
                    conf_reason = ''local_newer'', conf_ts = Some (b, a)\<rparr>]\<rparr>)"
  using existing_step[of u i "(db, acc)" row N P] compare_parsed[OF assms(4-10)] assms(1-3,11)
    report_present[OF assms(12)]
  by (simp add: add_conflict_pair)

lemma missing_step:
  assumes "uid u = Val i" "sqlite_int i" "select_user_by_id i (fst st) = Some row"
    and "\<not> (truthy (dict_get (updated_at u)) \<and> truthy (row_updated_at row))"
    and "username u \<noteq> Missing"
  shows "process_user N P u st =
           Inr (add_conflict \<lparr>conf_id = i, conf_username = dict_get (username u),
                              conf_reason = ''missing_timestamp'', conf_ts = None\<rparr> st)"
  using existing_step[OF assms(1-3)] compare_missing[OF assms(4)] report_present[OF assms(5)]
  by simp

lemma caught_step:
  assumes "uid u = Val i" "sqlite_int i" "select_user_by_id i (fst st) = Some row"
    and "compare_timestamps N P i u row st = Inl e" "username u \<noteq> Missing"
  shows "process_user N P u st =
           Inr (add_conflict \<lparr>conf_id = i, conf_username = dict_get (username u),
                              conf_reason = ''timestamp_parse_error'', conf_ts = None\<rparr> st)"
  using existing_step[OF assms(1-3)] assms(4) report_present[OF assms(5)]
  by simp

lemma raised_step:
  assumes "uid u = Val i" "sqlite_int i" "select_user_by_id i (fst st) = Some row"
    and "compare_timestamps N P i u row st = Inl e" "username u = Missing"
  shows "process_user N P u st = Inl KeyError"
  using existing_step[OF assms(1-3)] assms(4) report_absent[OF assms(5)]
  by simp

lemma insert_step:
  assumes "uid u = Val i" "sqlite_int i" "select_user_by_id i db = None"
    and "insert_params u = Inr v" "constraints_ok (stored_row N i v) (users db)"
  shows "process_user N P u (db, acc) =
           Inr (db\<lparr>users := users db @ [stored_row N i v], users_seq := max (users_seq db) i\<rparr>,
                acc\<lparr>inserted := inserted acc + 1\<rparr>)"
  using assms
  by (simp add: process_user_def apply_insert_def insert_user_row_def insert_at_def)

lemma counted_update:
  assumes "process_user N P u (db, acc) = Inr (db', acc')" "updated acc' \<noteq> updated acc"
  shows "\<exists>i v. uid u = Val i \<and> update_params u = Inr v \<and>
               select_user_by_id i db' = Some (stored_row N i v)"
  using assms(1)
proof (cases rule: process_user_Inr_cases)
  case (compared i ex)
  from compared(4) show ?thesis
  proof (cases rule: compare_timestamps_Inr_cases)
    case (update a b ta tb d v db'')
    from compared(3) have "i \<in> set (map row_id (users db))"
      using select_mem by fastforce
    with update(10) have "select_user_by_id i db'' = Some (stored_row N i v)"
      using select_after_update(1) by fastforce
    with update compared(1) show ?thesis by simp
  qed (use assms(2) in \<open>auto simp: add_conflict_def\<close>)
qed (use assms(2) in \<open>auto simp: add_conflict_def\<close>)

lemma counted_update_value:
  assumes "process_user N P u (db, acc) = Inr (db', acc')" "updated acc' \<noteq> updated acc"
  shows "\<exists>s. updated_at u = Val s"
  using assms(1)
proof (cases rule: process_user_Inr_cases)
  case (compared i ex)
  from compared(4) show ?thesis
  proof (cases rule: compare_timestamps_Inr_cases)
    case (update a b ta tb d v db'')
    from update(1) show ?thesis by (cases "updated_at u") simp_all
  qed (use assms(2) in \<open>auto simp: add_conflict_def\<close>)
qed (use assms(2) in \<open>auto simp: add_conflict_def\<close>)

lemma merge_users_append:
  "merge_users N P (xs @ ys) st = and_then (merge_users N P xs st) (merge_users N P ys)"
  by (induction xs arbitrary: st) (auto split: sum.splits)

lemma receive_Val:
  "us \<noteq> [] \<Longrightarrow>
   receive_users_for_sync T N P (Some T) (Val us) db =
     (case merge_users N P us (db, empty_acc) of
        Inl e \<Rightarrow> (Server_error e, db)
      | Inr st' \<Rightarrow>
          (Sync_ok (updated (snd st')) (inserted (snd st')) (conflicts (snd st')), fst st'))"
  by (cases us) (simp_all add: receive_users_for_sync_def verify_sync_token_def)

section \<open>Records that have nothing left to write\<close>






section \<open>The sample data, evaluated\<close>

lemma ts_1000: "fromisoformat (replace_Z ''2025-01-01T10:00:00'') = Some (Naive 63871408800000000)"
  by (simp add: parser_defs)

lemma ts_1005: "fromisoformat (replace_Z ''2025-01-01T10:05:00'') = Some (Naive 63871409100000000)"
  by (simp add: parser_defs)

lemma ts_0900: "fromisoformat (replace_Z ''2025-01-01T09:00:00'') = Some (Naive 63871405200000000)"
  by (simp add: parser_defs)

lemma ts_1005Z: "fromisoformat (replace_Z ''2025-01-01T10:05:00Z'') = Some (Aware 63871409100000000)"
  by (simp add: parser_defs)

lemma select_alice: "select_user_by_id 1 db_alice = Some alice_row"
  by (simp add: select_user_by_id_def sample_defs)

lemma sqlite_int_small: "sqlite_int 1" "sqlite_int 2" "sqlite_int 3"
  by (simp_all add: sqlite_int_def)

lemma stored_alice_newer:
  "update_params alice_newer =
     Inr \<lparr>val_username = Some ''alice'', val_password_hash = Some ''hash-b'',
          val_nome = Some ''Alice'', val_cognome = Some ''Bianchi'', val_ruolo = Some ''medico'',
          val_created_at = Some ''2024-12-02 09:00:00'', val_last_login = None,
          val_updated_at = Some ''2025-01-01T10:05:00''\<rparr>"
  "stored_row numeric_affinity 1
     \<lparr>val_username = Some ''alice'', val_password_hash = Some ''hash-b'',
      val_nome = Some ''Alice'', val_cognome = Some ''Bianchi'', val_ruolo = Some ''medico'',
      val_created_at = Some ''2024-12-02 09:00:00'', val_last_login = None,
      val_updated_at = Some ''2025-01-01T10:05:00''\<rparr> = alice_newer_row"
  by (simp_all add: update_params_def stored_row_def timestamp_column_def sample_defs
        index_from.simps number_from.simps)

lemma alice_newer_step:
  "process_user numeric_affinity fromisoformat alice_newer (db_alice, empty_acc) =
     Inr (db_alice\<lparr>users := [alice_newer_row]\<rparr>, empty_acc\<lparr>updated := 1\<rparr>)"
  by (simp add: merge_defs sample_defs parser_defs)

lemma bob_step:
  "merge_users numeric_affinity fromisoformat [bob] (db_alice, empty_acc) =
     Inr (db_alice\<lparr>users := [alice_row, bob_row], users_seq := 2\<rparr>, empty_acc\<lparr>inserted := 1\<rparr>)"
  by (simp add: merge_defs sample_defs)

section \<open>The token check\<close>

text \<open>
  C8. A GET or POST on \<^verbatim>\<open>/api/users/sync\<close> whose \<^verbatim>\<open>X-Sync-Token\<close> header is
  missing (\<open>None\<close>) or differs from the configured token is answered with 401.
  The table is not written (the database is returned as it was) and not read
  (the answer is the same over any other database).
\<close>

theorem unauthorized_sync_is_rejected:
  assumes "token \<noteq> Some SYNC_TOKEN"
  shows "get_users_for_sync SYNC_TOKEN token db = Unauthorized \<and>
         receive_users_for_sync SYNC_TOKEN numeric fromiso token body db = (Unauthorized, db) \<and>
         get_users_for_sync SYNC_TOKEN token db = get_users_for_sync SYNC_TOKEN token other \<and>
         fst (receive_users_for_sync SYNC_TOKEN numeric fromiso token body db) =
           fst (receive_users_for_sync SYNC_TOKEN numeric fromiso token body other) \<and>
         status Unauthorized = 401"
  using assms
  by (simp add: get_users_for_sync_def receive_users_for_sync_def verify_sync_token_def)

text \<open>A request without the header, and one with a wrong token.\<close>

theorem unauthorized_sync_is_rejected_witness:
  "None \<noteq> Some sync_token \<and> Some ''guess'' \<noteq> Some sync_token \<and>
   get_users_for_sync sync_token None db_two = Unauthorized \<and>
   receive_users_for_sync sync_token numeric_affinity fromisoformat None (Val [bob]) db_alice =
     (Unauthorized, db_alice) \<and>
   get_users_for_sync sync_token (Some ''guess'') db_two = Unauthorized \<and>
   receive_users_for_sync sync_token numeric_affinity fromisoformat (Some ''guess'') (Val [bob])
     db_alice = (Unauthorized, db_alice)"
proof -
  have a: "None \<noteq> Some sync_token" by simp
  have b: "Some ''guess'' \<noteq> Some sync_token" by (simp add: sync_token_def)
  from unauthorized_sync_is_rejected[OF a, of db_two numeric_affinity fromisoformat "Val [bob]" db_two]
       unauthorized_sync_is_rejected[OF a, of db_alice numeric_affinity fromisoformat "Val [bob]" db_alice]
       unauthorized_sync_is_rejected[OF b, of db_two numeric_affinity fromisoformat "Val [bob]" db_two]
       unauthorized_sync_is_rejected[OF b, of db_alice numeric_affinity fromisoformat "Val [bob]" db_alice]
       a b
  show ?thesis by simp
qed

section \<open>A request that fails\<close>

text \<open>
  C10. Whenever the POST handler answers 500 (\<open>Server_error\<close>), the database
  is what it was before the request. A record without \<^verbatim>\<open>id\<close> anywhere in the
  batch makes the request fail so, and so does a record with a new id and
  without \<^verbatim>\<open>username\<close>; what the records before it inserted or updated is
  not committed.
\<close>

theorem failed_batch_is_rolled_back:
  "(receive_users_for_sync T N P tok body db = (Server_error e, db') \<longrightarrow> db' = db) \<and>
   (uid u = Missing \<longrightarrow>
      (\<exists>e. receive_users_for_sync T N P (Some T) (Val (pre @ u # post)) db = (Server_error e, db))) \<and>
   (merge_users N P pre (db, empty_acc) = Inr st \<and> uid u = Val i \<and> sqlite_int i \<and>
    select_user_by_id i (fst st) = None \<and> username u = Missing \<longrightarrow>
      receive_users_for_sync T N P (Some T) (Val (pre @ u # post)) db = (Server_error KeyError, db))"
proof (intro conjI impI)
  assume "receive_users_for_sync T N P tok body db = (Server_error e, db')"
  then show "db' = db"
    by (auto simp: receive_users_for_sync_def split: if_splits option.splits list.splits sum.splits)
next
  assume none: "uid u = Missing"
  have step: "process_user N P u s = Inl KeyError" for s
    using none by (simp add: process_user_def)
  have "\<exists>e. merge_users N P (pre @ u # post) (db, empty_acc) = Inl e"
    by (cases "merge_users N P pre (db, empty_acc)") (simp_all add: merge_users_append step)
  then obtain e where "merge_users N P (pre @ u # post) (db, empty_acc) = Inl e" ..
  then have "receive_users_for_sync T N P (Some T) (Val (pre @ u # post)) db = (Server_error e, db)"
    by (simp add: receive_Val)
  then show "\<exists>e. receive_users_for_sync T N P (Some T) (Val (pre @ u # post)) db = (Server_error e, db)" ..
next
  assume h: "merge_users N P pre (db, empty_acc) = Inr st \<and> uid u = Val i \<and> sqlite_int i \<and>
    select_user_by_id i (fst st) = None \<and> username u = Missing"
  then have "process_user N P u st = Inl KeyError"
    by (simp add: process_user_def apply_insert_def insert_params_def)
  with h have "merge_users N P (pre @ u # post) (db, empty_acc) = Inl KeyError"
    by (simp add: merge_users_append)
  then show "receive_users_for_sync T N P (Some T) (Val (pre @ u # post)) db = (Server_error KeyError, db)"
    by (simp add: receive_Val)
qed

text \<open>
  \<open>bob\<close> alone would be inserted; followed by a record of a new id that has no
  \<^verbatim>\<open>username\<close>, nothing of the batch is kept.
\<close>

theorem failed_batch_is_rolled_back_witness:
  "merge_users numeric_affinity fromisoformat [bob] (db_alice, empty_acc) =
     Inr (db_alice\<lparr>users := [alice_row, bob_row], users_seq := 2\<rparr>, empty_acc\<lparr>inserted := 1\<rparr>) \<and>
   uid (bob\<lparr>uid := Val 3, username := Missing\<rparr>) = Val 3 \<and> sqlite_int 3 \<and>
   select_user_by_id 3 (db_alice\<lparr>users := [alice_row, bob_row], users_seq := 2\<rparr>) = None \<and>
   username (bob\<lparr>uid := Val 3, username := Missing\<rparr>) = Missing \<and>
   receive_users_for_sync sync_token numeric_affinity fromisoformat (Some sync_token)
     (Val ([bob] @ bob\<lparr>uid := Val 3, username := Missing\<rparr> # [alice_newer])) db_alice =
     (Server_error KeyError, db_alice)"
proof -
  have s: "select_user_by_id 3 (db_alice\<lparr>users := [alice_row, bob_row], users_seq := 2\<rparr>) = None"
    by (simp add: select_user_by_id_def sample_defs)
  from failed_batch_is_rolled_back[where P = fromisoformat and N = numeric_affinity
      and pre = "[bob]" and db = db_alice
      and u = "bob\<lparr>uid := Val 3, username := Missing\<rparr>" and i = 3 and T = sync_token
      and post = "[alice_newer]"
      and st = "(db_alice\<lparr>users := [alice_row, bob_row], users_seq := 2\<rparr>, empty_acc\<lparr>inserted := 1\<rparr>)"]
    bob_step s sqlite_int_small(3)
  show ?thesis by simp
qed

section \<open>The decision on an existing record\<close>

text \<open>
  C1, as amended. A record whose id is in the table, with both \<^verbatim>\<open>updated_at\<close>
  values non-empty and read as timestamps. When the two can be subtracted (both
  naive or both aware), \<open>d\<close> is the incoming one minus the stored one in
  microseconds.
  \<^item> If \<open>\<bar>d\<bar>\<close> is below one second, the turn writes nothing and reports nothing.
  \<^item> If the incoming one is at least a second newer, the record carries every
    column the \<^verbatim>\<open>UPDATE\<close> subscripts and the table's constraints accept the new
    row, the row is replaced by the incoming record and \<open>updated\<close> grows by one.
  \<^item> If it is at least a second older and the record carries \<^verbatim>\<open>username\<close>,
    nothing is written and a \<^verbatim>\<open>local_newer\<close> conflict is appended.
  \<^item> If the record carries \<^verbatim>\<open>username\<close> and either the two cannot be subtracted
    (one naive, one aware), or the incoming one is at least a second newer and
    the \<^verbatim>\<open>UPDATE\<close> raises (a subscripted column is absent, or the table refuses
    the new row), nothing is written and a \<^verbatim>\<open>timestamp_parse_error\<close> conflict is
    appended.
  \<^item> If the record lacks \<^verbatim>\<open>username\<close> and the two cannot be subtracted or differ
    by a second or more, the turn raises \<^verbatim>\<open>KeyError\<close>.
\<close>

theorem timestamp_decision:
  assumes "uid u = Val i" "sqlite_int i" "select_user_by_id i db = Some row"
    and "dict_get (updated_at u) = Some a" "row_updated_at row = Some b" "a \<noteq> []" "b \<noteq> []"
    and "P (replace_Z a) = Some ta" "P (replace_Z b) = Some tb"
  shows "(dt_sub ta tb = Inr d \<and> \<bar>d\<bar> < 1000000 \<longrightarrow>
            process_user N P u (db, acc) = Inr (db, acc)) \<and>
         (dt_sub ta tb = Inr d \<and> 1000000 \<le> d \<and> update_params u = Inr v \<and>
          constraints_ok (stored_row N i v) (filter (\<lambda>x. row_id x \<noteq> i) (users db)) \<longrightarrow>
            process_user N P u (db, acc) =
              Inr (db\<lparr>users := map (\<lambda>x. if row_id x = i then stored_row N i v else x) (users db)\<rparr>,
                   acc\<lparr>updated := updated acc + 1\<rparr>)) \<and>
         (dt_sub ta tb = Inr d \<and> d \<le> - 1000000 \<and> username u \<noteq> Missing \<longrightarrow>
            process_user N P u (db, acc) =
              Inr (db, acc\<lparr>conflicts := conflicts acc @
                     [\<lparr>conf_id = i, conf_username = dict_get (username u),
                       conf_reason = ''local_newer'', conf_ts = Some (b, a)\<rparr>]\<rparr>)) \<and>
         (username u \<noteq> Missing \<and>
          (dt_sub ta tb = Inl e \<or>
           (dt_sub ta tb = Inr d \<and> 1000000 \<le> d \<and>
            (update_params u = Inl e' \<or>
             (update_params u = Inr v \<and>
              \<not> constraints_ok (stored_row N i v) (filter (\<lambda>x. row_id x \<noteq> i) (users db)))))) \<longrightarrow>
            process_user N P u (db, acc) =
              Inr (db, acc\<lparr>conflicts := conflicts acc @
                     [\<lparr>conf_id = i, conf_username = dict_get (username u),
                       conf_reason = ''timestamp_parse_error'', conf_ts = None\<rparr>]\<rparr>)) \<and>
         (username u = Missing \<and>
          (dt_sub ta tb = Inl e \<or>
           (dt_sub ta tb = Inr d \<and> (1000000 \<le> d \<or> d \<le> - 1000000))) \<longrightarrow>
            process_user N P u (db, acc) = Inl KeyError)"
proof (intro conjI impI)
  assume "dt_sub ta tb = Inr d \<and> \<bar>d\<bar> < 1000000"
  then show "process_user N P u (db, acc) = Inr (db, acc)"
    using noop_step[OF assms] by blast
next
  assume "dt_sub ta tb = Inr d \<and> 1000000 \<le> d \<and> update_params u = Inr v \<and>
          constraints_ok (stored_row N i v) (filter (\<lambda>x. row_id x \<noteq> i) (users db))"
  then show "process_user N P u (db, acc) =
      Inr (db\<lparr>users := map (\<lambda>x. if row_id x = i then stored_row N i v else x) (users db)\<rparr>,
           acc\<lparr>updated := updated acc + 1\<rparr>)"
    using update_step[OF assms] by blast
next
  assume "dt_sub ta tb = Inr d \<and> d \<le> - 1000000 \<and> username u \<noteq> Missing"
  then show "process_user N P u (db, acc) =
      Inr (db, acc\<lparr>conflicts := conflicts acc @
             [\<lparr>conf_id = i, conf_username = dict_get (username u),
               conf_reason = ''local_newer'', conf_ts = Some (b, a)\<rparr>]\<rparr>)"
    using older_step[OF assms] by blast
next
  assume h: "username u \<noteq> Missing \<and>
          (dt_sub ta tb = Inl e \<or>
           (dt_sub ta tb = Inr d \<and> 1000000 \<le> d \<and>
            (update_params u = Inl e' \<or>
             (update_params u = Inr v \<and>
              \<not> constraints_ok (stored_row N i v) (filter (\<lambda>x. row_id x \<noteq> i) (users db))))))"
  have sel: "select_user_by_id i (fst (db, acc)) = Some row" using assms(3) by simp
  have "\<exists>x. compare_timestamps N P i u row (db, acc) = Inl x"
  proof (cases "dt_sub ta tb")
    case (Inl x)
    from compare_mixed[OF assms(4-9) Inl] show ?thesis by blast
  next
    case (Inr d')
    with h have d: "dt_sub ta tb = Inr d" "1000000 \<le> d"
      and r: "update_params u = Inl e' \<or>
             (update_params u = Inr v \<and>
              \<not> constraints_ok (stored_row N i v) (filter (\<lambda>x. row_id x \<noteq> i) (users db)))"
      by auto
    have "compare_timestamps N P i u row (db, acc) = apply_update N i u (db, acc)"
      using compare_parsed[OF assms(4-9) d(1)] d(2) by simp
    with apply_update_refused[OF assms(3) r] show ?thesis by simp
  qed
  then obtain x where "compare_timestamps N P i u row (db, acc) = Inl x" ..
  from caught_step[OF assms(1,2) sel this] h
  show "process_user N P u (db, acc) =
      Inr (db, acc\<lparr>conflicts := conflicts acc @
             [\<lparr>conf_id = i, conf_username = dict_get (username u),
               conf_reason = ''timestamp_parse_error'', conf_ts = None\<rparr>]\<rparr>)"
    by (simp add: add_conflict_pair)
next
  assume h: "username u = Missing \<and>
          (dt_sub ta tb = Inl e \<or>
           (dt_sub ta tb = Inr d \<and> (1000000 \<le> d \<or> d \<le> - 1000000)))"
  then have m: "username u = Missing" by simp
  have sel: "select_user_by_id i (fst (db, acc)) = Some row" using assms(3) by simp
  have "compare_timestamps N P i u row (db, acc) = Inl KeyError \<or>
        (\<exists>x. compare_timestamps N P i u row (db, acc) = Inl x)"
  proof (cases "dt_sub ta tb")
    case (Inl x)
    from compare_mixed[OF assms(4-9) Inl] show ?thesis by blast
  next
    case (Inr d')
    with h have d: "dt_sub ta tb = Inr d" "1000000 \<le> d \<or> d \<le> - 1000000" by auto
    from d(2) have "compare_timestamps N P i u row (db, acc) = Inl KeyError"
      using compare_parsed[OF assms(4-9) d(1), of N i "(db, acc)"] m
      by (auto simp: apply_update_def update_params_no_username report_absent)
    then show ?thesis by simp
  qed
  then obtain x where "compare_timestamps N P i u row (db, acc) = Inl x" by blast
  from raised_step[OF assms(1,2) sel this m]
  show "process_user N P u (db, acc) = Inl KeyError" .
qed

text \<open>
  The five branches on the sample table: the same timestamp, one five minutes
  newer, one an hour older, one with a \<^verbatim>\<open>Z\<close> against the stored naive one, and
  an older one without \<^verbatim>\<open>username\<close>.
\<close>

theorem timestamp_decision_witness:
  "process_user numeric_affinity fromisoformat
     (alice_newer\<lparr>updated_at := Val ''2025-01-01T10:00:00''\<rparr>) (db_alice, empty_acc) =
     Inr (db_alice, empty_acc) \<and>
   process_user numeric_affinity fromisoformat alice_newer (db_alice, empty_acc) =
     Inr (db_alice\<lparr>users := [alice_newer_row]\<rparr>, empty_acc\<lparr>updated := 1\<rparr>) \<and>
   process_user numeric_affinity fromisoformat
     (alice_newer\<lparr>updated_at := Val ''2025-01-01T09:00:00''\<rparr>) (db_alice, empty_acc) =
     Inr (db_alice, empty_acc\<lparr>conflicts :=
       [\<lparr>conf_id = 1, conf_username = Some ''alice'', conf_reason = ''local_newer'',
         conf_ts = Some (''2025-01-01T10:00:00'', ''2025-01-01T09:00:00'')\<rparr>]\<rparr>) \<and>
   process_user numeric_affinity fromisoformat
     (alice_newer\<lparr>updated_at := Val ''2025-01-01T10:05:00Z''\<rparr>) (db_alice, empty_acc) =
     Inr (db_alice, empty_acc\<lparr>conflicts :=
       [\<lparr>conf_id = 1, conf_username = Some ''alice'', conf_reason = ''timestamp_parse_error'',
         conf_ts = None\<rparr>]\<rparr>) \<and>
   process_user numeric_affinity fromisoformat
     (alice_newer\<lparr>username := Missing, updated_at := Val ''2025-01-01T09:00:00''\<rparr>)
     (db_alice, empty_acc) = Inl KeyError"
proof -
  note i = sqlite_int_small(1)
  have b: "row_updated_at alice_row = Some ''2025-01-01T10:00:00''" by (simp add: alice_row_def)
  have same: "process_user numeric_affinity fromisoformat
     (alice_newer\<lparr>updated_at := Val ''2025-01-01T10:00:00''\<rparr>) (db_alice, empty_acc) =
     Inr (db_alice, empty_acc)"
    using timestamp_decision[where u = "alice_newer\<lparr>updated_at := Val ''2025-01-01T10:00:00''\<rparr>"
        and i = 1 and db = db_alice and row = alice_row and a = "''2025-01-01T10:00:00''"
        and b = "''2025-01-01T10:00:00''" and P = fromisoformat and N = numeric_affinity
        and ta = "Naive 63871408800000000" and tb = "Naive 63871408800000000" and d = 0
        and acc = empty_acc, OF _ i select_alice _ b _ _ ts_1000 ts_1000]
    by (simp add: alice_newer_def)
  have newer: "process_user numeric_affinity fromisoformat alice_newer (db_alice, empty_acc) =
     Inr (db_alice\<lparr>users := [alice_newer_row]\<rparr>, empty_acc\<lparr>updated := 1\<rparr>)"
    using timestamp_decision[where u = alice_newer
        and i = 1 and db = db_alice and row = alice_row and a = "''2025-01-01T10:05:00''"
        and b = "''2025-01-01T10:00:00''" and P = fromisoformat and N = numeric_affinity
        and ta = "Naive 63871409100000000" and tb = "Naive 63871408800000000" and d = 300000000
        and acc = empty_acc
        and v = "\<lparr>val_username = Some ''alice'', val_password_hash = Some ''hash-b'',
          val_nome = Some ''Alice'', val_cognome = Some ''Bianchi'', val_ruolo = Some ''medico'',
          val_created_at = Some ''2024-12-02 09:00:00'', val_last_login = None,
          val_updated_at = Some ''2025-01-01T10:05:00''\<rparr>",
        OF _ i select_alice _ b _ _ ts_1005 ts_1000]
      stored_alice_newer
    by (simp add: alice_newer_def alice_newer_row_def alice_row_def db_alice_def
          constraints_ok_def row_acceptable_def valid_ruolo_def empty_acc_def)
  have older: "process_user numeric_affinity fromisoformat
     (alice_newer\<lparr>updated_at := Val ''2025-01-01T09:00:00''\<rparr>) (db_alice, empty_acc) =
     Inr (db_alice, empty_acc\<lparr>conflicts :=
       [\<lparr>conf_id = 1, conf_username = Some ''alice'', conf_reason = ''local_newer'',
         conf_ts = Some (''2025-01-01T10:00:00'', ''2025-01-01T09:00:00'')\<rparr>]\<rparr>)"
    using timestamp_decision[where u = "alice_newer\<lparr>updated_at := Val ''2025-01-01T09:00:00''\<rparr>"
        and i = 1 and db = db_alice and row = alice_row and a = "''2025-01-01T09:00:00''"
        and b = "''2025-01-01T10:00:00''" and P = fromisoformat and N = numeric_affinity
        and ta = "Naive 63871405200000000" and tb = "Naive 63871408800000000" and d = "- 3600000000"
        and acc = empty_acc, OF _ i select_alice _ b _ _ ts_0900 ts_1000]
    by (simp add: alice_newer_def empty_acc_def)
  have mixed: "process_user numeric_affinity fromisoformat
     (alice_newer\<lparr>updated_at := Val ''2025-01-01T10:05:00Z''\<rparr>) (db_alice, empty_acc) =
     Inr (db_alice, empty_acc\<lparr>conflicts :=
       [\<lparr>conf_id = 1, conf_username = Some ''alice'', conf_reason = ''timestamp_parse_error'',
         conf_ts = None\<rparr>]\<rparr>)"
    using timestamp_decision[where u = "alice_newer\<lparr>updated_at := Val ''2025-01-01T10:05:00Z''\<rparr>"
        and i = 1 and db = db_alice and row = alice_row and a = "''2025-01-01T10:05:00Z''"
        and b = "''2025-01-01T10:00:00''" and P = fromisoformat and N = numeric_affinity
        and ta = "Aware 63871409100000000" and tb = "Naive 63871408800000000" and e = TypeError
        and acc = empty_acc, OF _ i select_alice _ b _ _ ts_1005Z ts_1000]
    by (simp add: alice_newer_def empty_acc_def)
  have nameless: "process_user numeric_affinity fromisoformat
     (alice_newer\<lparr>username := Missing, updated_at := Val ''2025-01-01T09:00:00''\<rparr>)
     (db_alice, empty_acc) = Inl KeyError"
    using timestamp_decision[where
        u = "alice_newer\<lparr>username := Missing, updated_at := Val ''2025-01-01T09:00:00''\<rparr>"
        and i = 1 and db = db_alice and row = alice_row and a = "''2025-01-01T09:00:00''"
        and b = "''2025-01-01T10:00:00''" and P = fromisoformat and N = numeric_affinity
        and ta = "Naive 63871405200000000" and tb = "Naive 63871408800000000" and d = "- 3600000000"
        and acc = empty_acc, OF _ i select_alice _ b _ _ ts_0900 ts_1000]
    by (simp add: alice_newer_def)
  from same newer older mixed nameless show ?thesis by simp
qed

text \<open>
  C1 as stated fails. The stored \<^verbatim>\<open>2025-01-01T10:00:00\<close> is read as a naive
  timestamp and the incoming \<^verbatim>\<open>2025-01-01T10:05:00Z\<close> as an aware one; both
  parse, their subtraction raises \<^verbatim>\<open>TypeError\<close>, and the complete, newer record
  ends as a \<^verbatim>\<open>timestamp_parse_error\<close> conflict: not skipped silently, not
  written, not reported as \<^verbatim>\<open>local_newer\<close>.
  A newer record without \<^verbatim>\<open>password_hash\<close> ends the same way instead of being
  written, and an older record without \<^verbatim>\<open>username\<close> fails the request instead
  of being reported.
\<close>

theorem timestamp_decision_counterexample:
  "select_user_by_id 1 db_alice = Some alice_row \<and>
   row_updated_at alice_row = Some ''2025-01-01T10:00:00'' \<and>
   fromisoformat (replace_Z ''2025-01-01T10:00:00'') = Some (Naive 63871408800000000) \<and>
   fromisoformat (replace_Z ''2025-01-01T10:05:00Z'') = Some (Aware 63871409100000000) \<and>
   receive_users_for_sync sync_token numeric_affinity fromisoformat (Some sync_token)
     (Val [alice_newer\<lparr>updated_at := Val ''2025-01-01T10:05:00Z''\<rparr>]) db_alice =
     (Sync_ok 0 0 [\<lparr>conf_id = 1, conf_username = Some ''alice'',
                    conf_reason = ''timestamp_parse_error'', conf_ts = None\<rparr>],
      db_alice) \<and>
   fromisoformat (replace_Z ''2025-01-01T10:05:00'') = Some (Naive 63871409100000000) \<and>
   receive_users_for_sync sync_token numeric_affinity fromisoformat (Some sync_token)
     (Val [alice_newer\<lparr>password_hash := Missing\<rparr>]) db_alice =
     (Sync_ok 0 0 [\<lparr>conf_id = 1, conf_username = Some ''alice'',
                    conf_reason = ''timestamp_parse_error'', conf_ts = None\<rparr>],
      db_alice) \<and>
   fromisoformat (replace_Z ''2025-01-01T09:00:00'') = Some (Naive 63871405200000000) \<and>
   receive_users_for_sync sync_token numeric_affinity fromisoformat (Some sync_token)
     (Val [alice_newer\<lparr>username := Missing, updated_at := Val ''2025-01-01T09:00:00''\<rparr>]) db_alice =
     (Server_error KeyError, db_alice)"
  by (simp add: merge_defs sample_defs parser_defs)

section \<open>Records without a timestamp, new records\<close>

text \<open>
  C3, as amended. A record without a true \<^verbatim>\<open>updated_at\<close> (absent, \<^verbatim>\<open>null\<close> or
  empty) whose id is in the table is never written over its row: with a
  \<^verbatim>\<open>username\<close> key it is reported as a \<^verbatim>\<open>missing_timestamp\<close> conflict and the
  database is unchanged; without one the turn raises \<^verbatim>\<open>KeyError\<close>, which fails
  the whole request. (A record whose id is not in the table is inserted, with
  \<^verbatim>\<open>updated_at\<close> \<^verbatim>\<open>NULL\<close>.)
\<close>

theorem missing_timestamp_never_updates:
  assumes "uid u = Val i" "sqlite_int i" "select_user_by_id i db = Some row"
    and "\<not> truthy (dict_get (updated_at u))"
  shows "(username u \<noteq> Missing \<longrightarrow>
            process_user N P u (db, acc) =
              Inr (db, acc\<lparr>conflicts := conflicts acc @
                     [\<lparr>conf_id = i, conf_username = dict_get (username u),
                       conf_reason = ''missing_timestamp'', conf_ts = None\<rparr>]\<rparr>)) \<and>
         (username u = Missing \<longrightarrow> process_user N P u (db, acc) = Inl KeyError)"
proof (intro conjI impI)
  assume "username u \<noteq> Missing"
  with missing_step[of u i "(db, acc)" row N P] assms
  show "process_user N P u (db, acc) =
              Inr (db, acc\<lparr>conflicts := conflicts acc @
                     [\<lparr>conf_id = i, conf_username = dict_get (username u),
                       conf_reason = ''missing_timestamp'', conf_ts = None\<rparr>]\<rparr>)"
    by (simp add: add_conflict_pair)
next
  assume m: "username u = Missing"
  have "compare_timestamps N P i u row (db, acc) = Inl KeyError"
    using compare_missing[of u row N P i "(db, acc)"] assms(4) report_absent[OF m] by simp
  with existing_step[of u i "(db, acc)" row N P] assms(1-3) report_absent[OF m]
  show "process_user N P u (db, acc) = Inl KeyError" by simp
qed

text \<open>
  A \<^verbatim>\<open>null\<close> timestamp for user 1, with and without the \<^verbatim>\<open>username\<close> key.
\<close>

theorem missing_timestamp_never_updates_witness:
  "process_user numeric_affinity fromisoformat (alice_newer\<lparr>updated_at := Null\<rparr>)
     (db_alice, empty_acc) =
     Inr (db_alice, empty_acc\<lparr>conflicts :=
       [\<lparr>conf_id = 1, conf_username = Some ''alice'', conf_reason = ''missing_timestamp'',
         conf_ts = None\<rparr>]\<rparr>) \<and>
   process_user numeric_affinity fromisoformat
     (alice_newer\<lparr>updated_at := Missing, username := Missing\<rparr>) (db_alice, empty_acc) =
     Inl KeyError"
proof -
  note i = sqlite_int_small(1)
  from missing_timestamp_never_updates[where u = "alice_newer\<lparr>updated_at := Null\<rparr>" and i = 1
      and db = db_alice and row = alice_row and P = fromisoformat and N = numeric_affinity
      and acc = empty_acc, OF _ i select_alice]
    missing_timestamp_never_updates[where
      u = "alice_newer\<lparr>updated_at := Missing, username := Missing\<rparr>"
      and i = 1 and db = db_alice and row = alice_row and P = fromisoformat
      and N = numeric_affinity and acc = empty_acc, OF _ i select_alice]
  show ?thesis by (simp add: alice_newer_def empty_acc_def)
qed

text \<open>
  C3 as stated fails: a new user with \<^verbatim>\<open>updated_at = null\<close> is inserted, counted
  in \<open>inserted\<close>, and no conflict is reported. And a record of user 1 with
  \<^verbatim>\<open>updated_at = null\<close> and no \<^verbatim>\<open>username\<close> is not reported either: the request
  answers 500.
\<close>

theorem missing_timestamp_counterexample:
  "select_user_by_id 2 db_alice = None \<and>
   dict_get (updated_at (bob\<lparr>updated_at := Null\<rparr>)) = None \<and>
   receive_users_for_sync sync_token numeric_affinity fromisoformat (Some sync_token)
     (Val [bob\<lparr>updated_at := Null\<rparr>]) db_alice =
     (Sync_ok 0 1 [],
      \<lparr>users = [alice_row, bob_row\<lparr>row_updated_at := None\<rparr>], users_seq = 2, sessions = []\<rparr>) \<and>
   receive_users_for_sync sync_token numeric_affinity fromisoformat (Some sync_token)
     (Val [alice_newer\<lparr>username := Missing, updated_at := Null\<rparr>]) db_alice =
     (Server_error KeyError, db_alice)"
  by (simp add: merge_defs sample_defs)

text \<open>
  C4, as amended. A record whose id is not in the table, that carries \<^verbatim>\<open>id\<close>,
  \<^verbatim>\<open>username\<close>, \<^verbatim>\<open>password_hash\<close>, \<^verbatim>\<open>nome\<close>, \<^verbatim>\<open>cognome\<close> and \<^verbatim>\<open>ruolo\<close>
  (\<open>insert_params\<close> returns the values) and whose row the table's constraints
  accept, is appended to the table and counted in \<open>inserted\<close>, whatever its
  \<^verbatim>\<open>updated_at\<close> is: the value, or \<^verbatim>\<open>NULL\<close>, is stored as it came.
\<close>

theorem new_record_is_inserted:
  assumes "uid u = Val i" "sqlite_int i" "select_user_by_id i db = None"
    and "insert_params u = Inr v" "constraints_ok (stored_row N i v) (users db)"
  shows "process_user N P u (db, acc) =
           Inr (db\<lparr>users := users db @ [stored_row N i v], users_seq := max (users_seq db) i\<rparr>,
                acc\<lparr>inserted := inserted acc + 1\<rparr>) \<and>
         row_id (stored_row N i v) = i \<and>
         row_updated_at (stored_row N i v) = dict_get (updated_at u)"
  using insert_step[OF assms] insert_params_updated_at[OF assms(4)]
  by simp

text \<open>
  A new user whose \<^verbatim>\<open>updated_at\<close> is no timestamp at all.
\<close>

theorem new_record_is_inserted_witness:
  "process_user numeric_affinity fromisoformat (bob\<lparr>updated_at := Val ''long ago''\<rparr>)
     (db_alice, empty_acc) =
     Inr (\<lparr>users = [alice_row, bob_row\<lparr>row_updated_at := Some ''long ago''\<rparr>], users_seq = 2,
           sessions = []\<rparr>, empty_acc\<lparr>inserted := 1\<rparr>)"
proof -
  note i = sqlite_int_small(2)
  have s: "select_user_by_id 2 db_alice = None" by (simp add: select_user_by_id_def sample_defs)
  have p: "insert_params (bob\<lparr>updated_at := Val ''long ago''\<rparr>) =
             Inr \<lparr>val_username = Some ''bob'', val_password_hash = Some ''hash-c'',
                  val_nome = Some ''Bob'', val_cognome = Some ''Verdi'', val_ruolo = Some ''medico'',
                  val_created_at = Some ''2024-12-03 09:00:00'', val_last_login = None,
                  val_updated_at = Some ''long ago''\<rparr>"
    by (simp add: insert_params_def sample_defs)
  have r: "stored_row numeric_affinity 2
             \<lparr>val_username = Some ''bob'', val_password_hash = Some ''hash-c'',
              val_nome = Some ''Bob'', val_cognome = Some ''Verdi'', val_ruolo = Some ''medico'',
              val_created_at = Some ''2024-12-03 09:00:00'', val_last_login = None,
              val_updated_at = Some ''long ago''\<rparr> =
           bob_row\<lparr>row_updated_at := Some ''long ago''\<rparr>"
    by (simp add: stored_row_def timestamp_column_def sample_defs)
  have c: "constraints_ok (bob_row\<lparr>row_updated_at := Some ''long ago''\<rparr>) (users db_alice)"
    by (simp add: constraints_ok_def row_acceptable_def valid_ruolo_def sample_defs)
  from new_record_is_inserted[where u = "bob\<lparr>updated_at := Val ''long ago''\<rparr>"
      and P = fromisoformat and N = numeric_affinity and acc = empty_acc, OF _ i s p] c
  show ?thesis unfolding r by (simp add: bob_def db_alice_def empty_acc_def)
qed

text \<open>
  C4 as stated fails: user 2 is new and complete, but its \<^verbatim>\<open>username\<close> is held
  by user 1; the \<^verbatim>\<open>INSERT\<close> raises \<^verbatim>\<open>IntegrityError\<close>, the request answers 500
  and nothing is inserted. The same user without \<^verbatim>\<open>password_hash\<close> is not inserted
  either.
\<close>

theorem new_record_counterexample:
  "select_user_by_id 2 db_alice = None \<and>
   uid (bob\<lparr>username := Val ''alice''\<rparr>) = Val 2 \<and>
   receive_users_for_sync sync_token numeric_affinity fromisoformat (Some sync_token)
     (Val [bob\<lparr>username := Val ''alice''\<rparr>]) db_alice =
     (Server_error IntegrityError, db_alice) \<and>
   receive_users_for_sync sync_token numeric_affinity fromisoformat (Some sync_token)
     (Val [bob\<lparr>password_hash := Missing\<rparr>]) db_alice =
     (Server_error KeyError, db_alice)"
  by (simp add: merge_defs sample_defs)

section \<open>What an update stores\<close>

text \<open>
  C5, as amended. A record counted in \<open>updated\<close> leaves in the \<^verbatim>\<open>created_at\<close>
  column of its row what that column stores for the \<^verbatim>\<open>created_at\<close> of the
  incoming record: \<^verbatim>\<open>NULL\<close> when the key is absent or \<^verbatim>\<open>null\<close>, and otherwise
  what the \<^verbatim>\<open>NUMERIC\<close> affinity of the column makes of the incoming text. The
  \<^verbatim>\<open>UPDATE\<close> sets \<^verbatim>\<open>created_at\<close> with the other columns; the value the row
  held before plays no part.
\<close>

theorem update_overwrites_created_at:
  assumes "process_user N P u (db, acc) = Inr (db', acc')" "updated acc' \<noteq> updated acc"
  shows "\<exists>i r. uid u = Val i \<and> select_user_by_id i db' = Some r \<and>
               row_created_at r =
                 (case dict_get (created_at u) of None \<Rightarrow> SNull | Some s \<Rightarrow> N s)"
proof -
  from counted_update[OF assms] obtain i v where
    v: "uid u = Val i" "update_params u = Inr v" "select_user_by_id i db' = Some (stored_row N i v)"
    by blast
  have "row_created_at (stored_row N i v) =
          (case dict_get (created_at u) of None \<Rightarrow> SNull | Some s \<Rightarrow> N s)"
    using update_params_created_at[OF v(2)] by (simp add: timestamp_column_def)
  with v(1,3) show ?thesis by blast
qed

text \<open>
  The sample update of user 1, and the same update with a \<^verbatim>\<open>created_at\<close> that
  reads as a number: the column then holds the integer 7.
\<close>

theorem update_overwrites_created_at_witness:
  "process_user numeric_affinity fromisoformat alice_newer (db_alice, empty_acc) =
     Inr (db_alice\<lparr>users := [alice_newer_row]\<rparr>, empty_acc\<lparr>updated := 1\<rparr>) \<and>
   updated (empty_acc\<lparr>updated := 1\<rparr>) \<noteq> updated empty_acc \<and>
   select_user_by_id 1 (db_alice\<lparr>users := [alice_newer_row]\<rparr>) = Some alice_newer_row \<and>
   row_created_at alice_newer_row = SText ''2024-12-02 09:00:00'' \<and>
   process_user numeric_affinity fromisoformat (alice_newer\<lparr>created_at := Val ''007''\<rparr>)
     (db_alice, empty_acc) =
     Inr (db_alice\<lparr>users := [alice_newer_row\<lparr>row_created_at := SInt 7\<rparr>]\<rparr>,
          empty_acc\<lparr>updated := 1\<rparr>) \<and>
   select_user_by_id 1 (db_alice\<lparr>users := [alice_newer_row\<lparr>row_created_at := SInt 7\<rparr>]\<rparr>) =
     Some (alice_newer_row\<lparr>row_created_at := SInt 7\<rparr>)"
proof -
  have c: "updated (empty_acc\<lparr>updated := 1\<rparr>) \<noteq> updated empty_acc" by (simp add: empty_acc_def)
  have seven: "process_user numeric_affinity fromisoformat (alice_newer\<lparr>created_at := Val ''007''\<rparr>)
     (db_alice, empty_acc) =
     Inr (db_alice\<lparr>users := [alice_newer_row\<lparr>row_created_at := SInt 7\<rparr>]\<rparr>,
          empty_acc\<lparr>updated := 1\<rparr>)"
    by (simp add: merge_defs sample_defs parser_defs)
  from update_overwrites_created_at[OF alice_newer_step c]
       update_overwrites_created_at[OF seven c] alice_newer_step seven c
  show ?thesis by (simp add: select_user_by_id_def sample_defs)
qed

text \<open>
  C5 as stated fails: the stored \<^verbatim>\<open>created_at\<close> of user 1 is
  \<^verbatim>\<open>2024-12-01 09:00:00\<close> before the merge and \<^verbatim>\<open>2024-12-02 09:00:00\<close>, the
  incoming value, after it.
\<close>

theorem created_at_counterexample:
  "select_user_by_id 1 db_alice = Some alice_row \<and>
   row_created_at alice_row = SText ''2024-12-01 09:00:00'' \<and>
   receive_users_for_sync sync_token numeric_affinity fromisoformat (Some sync_token)
     (Val [alice_newer]) db_alice =
     (Sync_ok 1 0 [], db_alice\<lparr>users := [alice_newer_row]\<rparr>) \<and>
   select_user_by_id 1 (db_alice\<lparr>users := [alice_newer_row]\<rparr>) = Some alice_newer_row \<and>
   row_created_at alice_newer_row = SText ''2024-12-02 09:00:00''"
  by (simp add: merge_defs sample_defs parser_defs)

lemma counted_update_stored:
  assumes "process_user N P u (db, acc) = Inr (db', acc')" "updated acc' \<noteq> updated acc"
  shows "\<exists>i s r. uid u = Val i \<and> updated_at u = Val s \<and> select_user_by_id i db' = Some r \<and>
                row_updated_at r = Some s"
proof -
  from counted_update[OF assms] obtain i v where
    v: "uid u = Val i" "update_params u = Inr v" "select_user_by_id i db' = Some (stored_row N i v)"
    by blast
  from counted_update_value[OF assms] obtain s where s: "updated_at u = Val s" by blast
  have "val_updated_at v = dict_get (updated_at u)" using v(2) by (rule update_params_updated_at)
  then have "row_updated_at (stored_row N i v) = Some s" by (simp add: s)
  with v(1,3) s show ?thesis by blast
qed

lemma scenario_step:
  assumes "select_user_by_id 1 db = Some row" "row_updated_at row = Some ''2025-01-01T10:00:00''"
    and "uid v = Val 1" "updated_at v = Val ''2025-01-01T10:05:00''" "update_params v = Inr w"
    and "constraints_ok (stored_row N 1 w) (filter (\<lambda>x. row_id x \<noteq> 1) (users db))"
  shows "receive_users_for_sync sync_token N fromisoformat (Some sync_token) (Val [v]) db =
           (Sync_ok 1 0 [],
            db\<lparr>users := map (\<lambda>x. if row_id x = 1 then stored_row N 1 w else x) (users db)\<rparr>) \<and>
         select_user_by_id 1
           (db\<lparr>users := map (\<lambda>x. if row_id x = 1 then stored_row N 1 w else x) (users db)\<rparr>) =
           Some (stored_row N 1 w) \<and>
         row_updated_at (stored_row N 1 w) = Some ''2025-01-01T10:05:00''"
proof -
  note i = sqlite_int_small(1)
  have g: "dict_get (updated_at v) = Some ''2025-01-01T10:05:00''"
    by (simp only: assms(4) dict_get.simps)
  have ne: "''2025-01-01T10:05:00'' \<noteq> []" "''2025-01-01T10:00:00'' \<noteq> []" by simp_all
  have d: "dt_sub (Naive 63871409100000000) (Naive 63871408800000000) = Inr 300000000" by simp
  have le: "(1000000::int) \<le> 300000000" by simp
  have step: "process_user N fromisoformat v (db, empty_acc) =
      Inr (db\<lparr>users := map (\<lambda>x. if row_id x = 1 then stored_row N 1 w else x) (users db)\<rparr>,
           empty_acc\<lparr>updated := updated empty_acc + 1\<rparr>)"
    by (rule update_step[OF assms(3) i assms(1) g assms(2) ne ts_1005 ts_1000 d le assms(5,6)])
  have resp: "receive_users_for_sync sync_token N fromisoformat (Some sync_token) (Val [v]) db =
        (Sync_ok 1 0 [],
         db\<lparr>users := map (\<lambda>x. if row_id x = 1 then stored_row N 1 w else x) (users db)\<rparr>)"
    by (simp add: receive_users_for_sync_def verify_sync_token_def step) (simp add: empty_acc_def)
  from assms(1) have "1 \<in> set (map row_id (users db))" by (rule select_mem)
  then have sel: "select_user_by_id 1
      (db\<lparr>users := map (\<lambda>x. if row_id x = 1 then stored_row N 1 w else x) (users db)\<rparr>) =
      Some (stored_row N 1 w)"
    by (simp add: select_user_by_id_def find_replaced)
  have "val_updated_at w = dict_get (updated_at v)" using assms(5) by (rule update_params_updated_at)
  then have "row_updated_at (stored_row N 1 w) = Some ''2025-01-01T10:05:00''" by (simp add: g)
  with resp sel show ?thesis by blast
qed

text \<open>
  C6. Whenever a record is counted in \<open>updated\<close>, its \<^verbatim>\<open>updated_at\<close> is a
  string and the row found under its id afterwards holds that very string. In
  the scenario of the specification (stored \<^verbatim>\<open>2025-01-01T10:00:00\<close>, incoming
  \<^verbatim>\<open>2025-01-01T10:05:00\<close>, the record complete and accepted by the table) the
  answer is \<open>updated = 1\<close>, \<open>inserted = 0\<close>, no conflict, and the stored
  \<^verbatim>\<open>updated_at\<close> is \<^verbatim>\<open>2025-01-01T10:05:00\<close>.
\<close>

theorem update_keeps_incoming_updated_at:
  "(process_user N P u (db, acc) = Inr (db', acc') \<and> updated acc' \<noteq> updated acc \<longrightarrow>
      (\<exists>i s r. uid u = Val i \<and> updated_at u = Val s \<and> select_user_by_id i db' = Some r \<and>
                row_updated_at r = Some s)) \<and>
   (select_user_by_id 1 db = Some row \<and> row_updated_at row = Some ''2025-01-01T10:00:00'' \<and>
    uid v = Val 1 \<and> updated_at v = Val ''2025-01-01T10:05:00'' \<and> update_params v = Inr w \<and>
    constraints_ok (stored_row N 1 w) (filter (\<lambda>x. row_id x \<noteq> 1) (users db)) \<longrightarrow>
      receive_users_for_sync sync_token N fromisoformat (Some sync_token) (Val [v]) db =
        (Sync_ok 1 0 [],
         db\<lparr>users := map (\<lambda>x. if row_id x = 1 then stored_row N 1 w else x) (users db)\<rparr>) \<and>
      select_user_by_id 1
        (db\<lparr>users := map (\<lambda>x. if row_id x = 1 then stored_row N 1 w else x) (users db)\<rparr>) =
        Some (stored_row N 1 w) \<and>
      row_updated_at (stored_row N 1 w) = Some ''2025-01-01T10:05:00'')"
  using counted_update_stored[of N P u db acc db' acc'] scenario_step[of db row v w N]
  by blast

text \<open>
  The scenario on the sample table.
\<close>

theorem update_keeps_incoming_updated_at_witness:
  "select_user_by_id 1 db_alice = Some alice_row \<and>
   row_updated_at alice_row = Some ''2025-01-01T10:00:00'' \<and>
   uid alice_newer = Val 1 \<and> updated_at alice_newer = Val ''2025-01-01T10:05:00'' \<and>
   receive_users_for_sync sync_token numeric_affinity fromisoformat (Some sync_token)
     (Val [alice_newer]) db_alice =
     (Sync_ok 1 0 [], db_alice\<lparr>users := [alice_newer_row]\<rparr>) \<and>
   select_user_by_id 1 (db_alice\<lparr>users := [alice_newer_row]\<rparr>) = Some alice_newer_row \<and>
   row_updated_at alice_newer_row = Some ''2025-01-01T10:05:00''"
proof -
  let ?w = "\<lparr>val_username = Some ''alice'', val_password_hash = Some ''hash-b'',
          val_nome = Some ''Alice'', val_cognome = Some ''Bianchi'', val_ruolo = Some ''medico'',
          val_created_at = Some ''2024-12-02 09:00:00'', val_last_login = None,
          val_updated_at = Some ''2025-01-01T10:05:00''\<rparr>"
  have c: "constraints_ok alice_newer_row (filter (\<lambda>x. row_id x \<noteq> 1) (users db_alice))"
    by (simp add: constraints_ok_def row_acceptable_def valid_ruolo_def sample_defs)
  have c': "constraints_ok (stored_row numeric_affinity 1 ?w)
              (filter (\<lambda>x. row_id x \<noteq> 1) (users db_alice))"
    using c by (simp only: stored_alice_newer(2))
  have a: "row_updated_at alice_row = Some ''2025-01-01T10:00:00''" "uid alice_newer = Val 1"
      "updated_at alice_newer = Val ''2025-01-01T10:05:00''"
    by (simp_all add: sample_defs)
  have m: "map (\<lambda>x. if row_id x = 1 then alice_newer_row else x) (users db_alice) = [alice_newer_row]"
    by (simp add: sample_defs)
  have "receive_users_for_sync sync_token numeric_affinity fromisoformat (Some sync_token)
          (Val [alice_newer]) db_alice =
        (Sync_ok 1 0 [], db_alice\<lparr>users := map (\<lambda>x. if row_id x = 1 then alice_newer_row else x) (users db_alice)\<rparr>) \<and>
      select_user_by_id 1 (db_alice\<lparr>users := map (\<lambda>x. if row_id x = 1 then alice_newer_row else x) (users db_alice)\<rparr>) = Some alice_newer_row \<and>
      row_updated_at alice_newer_row = Some ''2025-01-01T10:05:00''"
    using update_keeps_incoming_updated_at[where db = db_alice and row = alice_row and v = alice_newer
      and w = ?w and P = fromisoformat and N = numeric_affinity and u = alice_newer
      and acc = empty_acc and db' = db_alice and acc' = empty_acc]
      select_alice a stored_alice_newer(1) c'
    unfolding stored_alice_newer(2) by blast
  then show ?thesis using select_alice a by (simp only: m)
qed

section \<open>Malformed records\<close>







section \<open>Posting a batch twice\<close>




section \<open>Local writes and \<^verbatim>\<open>updated_at\<close>\<close>

lemma login_success:
  assumes "login N V tok exp now name pw db = Inr (Success x, db')"
  shows "\<exists>user. select_user_by_username name db = Some user \<and>
           users db' = map (\<lambda>r. if row_id r = row_id user then r\<lparr>row_last_login := N now\<rparr> else r) (users db) \<and>
           sessions db' = sessions db @ [\<lparr>sess_user_id = row_id user, sess_token = tok, sess_expires_at = exp\<rparr>] \<and>
           users_seq db' = users_seq db"
  using assms
  by (auto simp: login_def and_then_Inr_iff split: option.splits if_splits)

lemma map_last_login_updated_at:
  "map row_updated_at (map (\<lambda>r. if row_id r = i then r\<lparr>row_last_login := v\<rparr> else r) rows) =
   map row_updated_at rows"
  by (induction rows) auto

lemma register_success:
  assumes "register_user N H now name pw n c ru db = Inr (Success i, db')"
  shows "\<exists>row. users db' = users db @ [row] \<and> row_id row = i \<and> row_updated_at row = Some now"
  using assms
  by (auto simp: register_user_def insert_user_row_def insert_at_def
        split: option.splits if_splits sum.splits)

lemma set_columns_simps [simp]:
  "row_id (set_columns H now n c ru p r) = row_id r"
  "row_updated_at (set_columns H now n c ru p r) = Some now"
  "row_last_login (set_columns H now n c ru p r) = row_last_login r"
  "row_created_at (set_columns H now n c ru p r) = row_created_at r"
  "row_username (set_columns H now n c ru p r) = row_username r"
  by (simp_all add: set_columns_def)

lemma update_success:
  assumes "update_user H now i n c ru p db = Inr (Success (), db')"
  shows "i \<in> set (map row_id (users db)) \<and>
         users db' = map (\<lambda>r. if row_id r = i then set_columns H now n c ru p r else r) (users db)"
  using assms
  by (auto simp: update_user_def split: if_splits)

lemma find_edited:
  "find (\<lambda>x. row_id x = i) rows = Some r \<Longrightarrow> (\<And>x. row_id (f x) = row_id x) \<Longrightarrow>
   find (\<lambda>x. row_id x = i) (map (\<lambda>x. if row_id x = i then f x else x) rows) = Some (f r)"
  by (induction rows) (auto split: if_splits)

lemma edited_rows:
  "(\<And>x. row_id (f x) = row_id x) \<Longrightarrow> (\<And>x. row_updated_at (f x) = v) \<Longrightarrow>
   row \<in> set (map (\<lambda>x. if row_id x = i then f x else x) rows) \<Longrightarrow> row_id row = i \<Longrightarrow>
   row_updated_at row = v"
proof (induction rows)
  case Nil
  then show ?case by simp
next
  case (Cons x rows)
  show ?case
  proof (cases "row = (if row_id x = i then f x else x)")
    case True
    with Cons.prems(1,2,4) show ?thesis by (cases "row_id x = i") simp_all
  next
    case False
    with Cons.prems(3) have "row \<in> set (map (\<lambda>x. if row_id x = i then f x else x) rows)" by simp
    from Cons.IH[OF Cons.prems(1,2) this Cons.prems(4)] show ?thesis .
  qed
qed

lemma login_only_last_login:
  assumes a: "login N V tok exp now name pw db = Inr (Success x, db')"
  shows "(\<exists>user. select_user_by_username name db = Some user \<and>
         users db' = map (\<lambda>r. if row_id r = row_id user then r\<lparr>row_last_login := N now\<rparr> else r)
                         (users db)) \<and>
      map row_updated_at (users db') = map row_updated_at (users db) \<and>
      (\<exists>s. sessions db' = sessions db @ [s])"
proof -
  from login_success[OF a] obtain user where u: "select_user_by_username name db = Some user"
      "users db' = map (\<lambda>r. if row_id r = row_id user then r\<lparr>row_last_login := N now\<rparr> else r) (users db)"
      "sessions db' = sessions db @ [\<lparr>sess_user_id = row_id user, sess_token = tok, sess_expires_at = exp\<rparr>]"
    by blast
  have "map row_updated_at (users db') = map row_updated_at (users db)"
    unfolding u(2) by (rule map_last_login_updated_at)
  with u show ?thesis by blast
qed

lemma update_user_refreshes:
  assumes a: "update_user H now i new_n new_c new_ru new_p db = Inr (Success (), db')"
  shows "(\<exists>old. select_user_by_id i db = Some old \<and>
         select_user_by_id i db' = Some (set_columns H now new_n new_c new_ru new_p old)) \<and>
      (\<forall>row\<in>set (users db'). row_id row = i \<longrightarrow> row_updated_at row = Some now)"
proof -
  from update_success[OF a] have mem: "i \<in> set (map row_id (users db))"
    and eq: "users db' = map (\<lambda>r. if row_id r = i then set_columns H now new_n new_c new_ru new_p r else r) (users db)"
    by blast+
  from mem have "find (\<lambda>x. row_id x = i) (users db) \<noteq> None"
    by (simp only: find_row_None not_not)
  then obtain old where old: "find (\<lambda>x. row_id x = i) (users db) = Some old" by blast
  have "find (\<lambda>x. row_id x = i) (users db') = Some (set_columns H now new_n new_c new_ru new_p old)"
    unfolding eq
    by (rule find_edited[where f = "set_columns H now new_n new_c new_ru new_p", OF old])
       (rule set_columns_simps(1))
  with old have one: "\<exists>old. select_user_by_id i db = Some old \<and>
         select_user_by_id i db' = Some (set_columns H now new_n new_c new_ru new_p old)"
    unfolding select_user_by_id_def by blast
  have two: "\<forall>row\<in>set (users db'). row_id row = i \<longrightarrow> row_updated_at row = Some now"
  proof (intro ballI impI)
    fix row assume "row \<in> set (users db')" "row_id row = i"
    then have "row \<in> set (map (\<lambda>r. if row_id r = i then set_columns H now new_n new_c new_ru new_p r else r) (users db))"
      by (simp only: eq)
    from edited_rows[where f = "set_columns H now new_n new_c new_ru new_p" and v = "Some now",
        OF set_columns_simps(1) set_columns_simps(2) this \<open>row_id row = i\<close>]
    show "row_updated_at row = Some now" .
  qed
  from one two show ?thesis ..
qed

text \<open>
  C9. A successful \<^verbatim>\<open>login\<close> changes, in the users table, only \<^verbatim>\<open>last_login\<close>
  of the user found (and appends one session row); every \<^verbatim>\<open>updated_at\<close> stays.
  A successful \<^verbatim>\<open>register_user\<close> appends a row whose \<^verbatim>\<open>updated_at\<close> is the
  current time, and a successful \<^verbatim>\<open>update_user\<close> leaves the current time in
  \<^verbatim>\<open>updated_at\<close> of the edited row.
\<close>

theorem only_edits_refresh_updated_at:
  "(login N V tok exp now name pw db = Inr (Success x, db') \<longrightarrow>
      (\<exists>user. select_user_by_username name db = Some user \<and>
         users db' = map (\<lambda>r. if row_id r = row_id user then r\<lparr>row_last_login := N now\<rparr> else r)
                         (users db)) \<and>
      map row_updated_at (users db') = map row_updated_at (users db) \<and>
      (\<exists>s. sessions db' = sessions db @ [s])) \<and>
   (register_user N H now name pw n c ru db = Inr (Success i, db') \<longrightarrow>
      (\<exists>row. users db' = users db @ [row] \<and> row_id row = i \<and> row_updated_at row = Some now)) \<and>
   (update_user H now i new_n new_c new_ru new_p db = Inr (Success (), db') \<longrightarrow>
      (\<exists>old. select_user_by_id i db = Some old \<and>
         select_user_by_id i db' = Some (set_columns H now new_n new_c new_ru new_p old)) \<and>
      (\<forall>row\<in>set (users db'). row_id row = i \<longrightarrow> row_updated_at row = Some now))"
  using login_only_last_login[of N V tok exp now name pw db x db']
    register_success[of N H now name pw n c ru db i db']
    update_user_refreshes[of H now i new_n new_c new_ru new_p db db']
  by blast

text \<open>
  A login, a registration and an edit on the sample table.
\<close>

theorem only_edits_refresh_updated_at_witness:
  "login numeric_affinity (\<lambda>p h. Inr (p = ''secret'' \<and> h = ''hash-a'')) ''token-1'' ''2025-02-02 10:40:00''
      ''2025-02-02 10:00:00'' ''alice'' ''secret'' db_alice =
     Inr (Success (''token-1'', alice_row),
          \<lparr>users = [alice_row\<lparr>row_last_login := SText ''2025-02-02 10:00:00''\<rparr>], users_seq = 1,
            sessions = [\<lparr>sess_user_id = 1, sess_token = ''token-1'',
                         sess_expires_at = ''2025-02-02 10:40:00''\<rparr>]\<rparr>) \<and>
   map row_updated_at [alice_row\<lparr>row_last_login := SText ''2025-02-02 10:00:00''\<rparr>] =
     map row_updated_at (users db_alice) \<and>
   register_user numeric_affinity (\<lambda>p. ''bcrypt:'' @ p) ''2025-02-02 10:00:00'' ''carol'' ''pw'' ''Carol'' ''Neri''
      ''admin'' db_alice =
     Inr (Success 2,
          \<lparr>users = [alice_row,
             \<lparr>row_id = 2, row_username = Some ''carol'', row_password_hash = Some ''bcrypt:pw'',
              row_nome = Some ''Carol'', row_cognome = Some ''Neri'', row_ruolo = Some ''admin'',
              row_created_at = SText ''2025-02-02 10:00:00'', row_last_login = SNull,
              row_updated_at = Some ''2025-02-02 10:00:00''\<rparr>],
            users_seq = 2, sessions = []\<rparr>) \<and>
   update_user (\<lambda>p. ''bcrypt:'' @ p) ''2025-02-02 10:00:00'' 1 (Some ''Alicia'') None None None
      db_alice =
     Inr (Success (),
          \<lparr>users = [alice_row\<lparr>row_nome := Some ''Alicia'',
                                row_updated_at := Some ''2025-02-02 10:00:00''\<rparr>],
            users_seq = 1, sessions = []\<rparr>) \<and>
   row_id (alice_row\<lparr>row_nome := Some ''Alicia'',
                     row_updated_at := Some ''2025-02-02 10:00:00''\<rparr>) = 1 \<and>
   row_updated_at (alice_row\<lparr>row_nome := Some ''Alicia'',
                             row_updated_at := Some ''2025-02-02 10:00:00''\<rparr>) =
     Some ''2025-02-02 10:00:00''"
proof -
  have l: "login numeric_affinity (\<lambda>p h. Inr (p = ''secret'' \<and> h = ''hash-a'')) ''token-1'' ''2025-02-02 10:40:00''
      ''2025-02-02 10:00:00'' ''alice'' ''secret'' db_alice =
     Inr (Success (''token-1'', alice_row),
          \<lparr>users = [alice_row\<lparr>row_last_login := SText ''2025-02-02 10:00:00''\<rparr>], users_seq = 1,
            sessions = [\<lparr>sess_user_id = 1, sess_token = ''token-1'',
                         sess_expires_at = ''2025-02-02 10:40:00''\<rparr>]\<rparr>)"
    by (simp add: login_def select_user_by_username_def sample_defs)
  have r: "register_user numeric_affinity (\<lambda>p. ''bcrypt:'' @ p) ''2025-02-02 10:00:00'' ''carol'' ''pw'' ''Carol'' ''Neri''
      ''admin'' db_alice =
     Inr (Success 2,
          \<lparr>users = [alice_row,
             \<lparr>row_id = 2, row_username = Some ''carol'', row_password_hash = Some ''bcrypt:pw'',
              row_nome = Some ''Carol'', row_cognome = Some ''Neri'', row_ruolo = Some ''admin'',
              row_created_at = SText ''2025-02-02 10:00:00'', row_last_login = SNull,
              row_updated_at = Some ''2025-02-02 10:00:00''\<rparr>],
            users_seq = 2, sessions = []\<rparr>)"
    by (simp add: register_user_def select_user_by_username_def next_rowid_def insert_user_row_def
          insert_at_def stored_row_def timestamp_column_def constraints_ok_def row_acceptable_def
          valid_ruolo_def sqlite_int_def sample_defs index_from.simps number_from.simps)
  have e: "update_user (\<lambda>p. ''bcrypt:'' @ p) ''2025-02-02 10:00:00'' 1 (Some ''Alicia'') None None None
      db_alice =
     Inr (Success (),
          \<lparr>users = [alice_row\<lparr>row_nome := Some ''Alicia'',
                                row_updated_at := Some ''2025-02-02 10:00:00''\<rparr>],
            users_seq = 1, sessions = []\<rparr>)"
    by (simp add: update_user_def set_columns_def assign_def sqlite_int_def sample_defs)
  from only_edits_refresh_updated_at[where V = "\<lambda>p h. Inr (p = ''secret'' \<and> h = ''hash-a'')"
      and N = numeric_affinity and tok = "''token-1''" and exp = "''2025-02-02 10:40:00''" and now = "''2025-02-02 10:00:00''"
      and name = "''alice''" and pw = "''secret''" and db = db_alice and x = "(''token-1'', alice_row)"
      and db' = "\<lparr>users = [alice_row\<lparr>row_last_login := SText ''2025-02-02 10:00:00''\<rparr>], users_seq = 1,
            sessions = [\<lparr>sess_user_id = 1, sess_token = ''token-1'',
                         sess_expires_at = ''2025-02-02 10:40:00''\<rparr>]\<rparr>"] l
  have one: "map row_updated_at [alice_row\<lparr>row_last_login := SText ''2025-02-02 10:00:00''\<rparr>] =
     map row_updated_at (users db_alice)"
    by (simp only: database.simps)
  from only_edits_refresh_updated_at[where H = "\<lambda>p. ''bcrypt:'' @ p" and now = "''2025-02-02 10:00:00''"
      and i = 1 and new_n = "Some ''Alicia''" and new_c = None and new_ru = None and new_p = None
      and db = db_alice
      and db' = "\<lparr>users = [alice_row\<lparr>row_nome := Some ''Alicia'',
                                row_updated_at := Some ''2025-02-02 10:00:00''\<rparr>],
            users_seq = 1, sessions = []\<rparr>"] e
  have two: "\<forall>row\<in>set [alice_row\<lparr>row_nome := Some ''Alicia'',
                              row_updated_at := Some ''2025-02-02 10:00:00''\<rparr>].
      row_id row = 1 \<longrightarrow> row_updated_at row = Some ''2025-02-02 10:00:00''"
    by (simp only: database.simps) blast
  have three: "row_id (alice_row\<lparr>row_nome := Some ''Alicia'',
                     row_updated_at := Some ''2025-02-02 10:00:00''\<rparr>) = 1"
    by (simp add: alice_row_def)
  from two three
  have four: "row_updated_at (alice_row\<lparr>row_nome := Some ''Alicia'',
                             row_updated_at := Some ''2025-02-02 10:00:00''\<rparr>) =
     Some ''2025-02-02 10:00:00''"
    by simp
  from l r e one three four show ?thesis by blast
qed

end
